theory Spec2Isabelle
  imports Complex_Main "HOL-Library.AList" "HOL-Library.Multiset"
begin

section \<open>Python values used by the server\<close>

text \<open>
  The game server (backend/server.py) keeps all of its state in the module-level dict
  \<open>game_rooms\<close> and reacts to Socket.IO events.  Strings are modelled as lists of
  8-bit characters and the text operations below act on the ASCII range, which covers
  every word of the word bank; integers are unbounded; the two float quantities of the
  source (time stamps and their difference) are rationals, every finite float being one.
\<close>

datatype py_error = IndexError | ZeroDivisionError | AttributeError | TypeError

text \<open>\<open>xs[i]\<close>: a negative index counts from the end, an index out of range raises.\<close>

definition py_index :: "'a list \<Rightarrow> int \<Rightarrow> 'a option" where
  "py_index xs i =
     (if 0 \<le> i \<and> i < int (length xs) then Some (xs ! nat i)
      else if i < 0 \<and> - int (length xs) \<le> i then Some (xs ! nat (int (length xs) + i))
      else None)"

text \<open>\<open>int(x)\<close> on a float truncates towards zero.\<close>

definition py_int :: "rat \<Rightarrow> int" where
  "py_int x = (if 0 \<le> x then \<lfloor>x\<rfloor> else \<lceil>x\<rceil>)"

definition lower_char :: "char \<Rightarrow> char" where
  "lower_char c =
     (let n = (of_char c :: nat) in if 65 \<le> n \<and> n \<le> 90 then char_of (n + 32) else c)"

definition upper_char :: "char \<Rightarrow> char" where
  "upper_char c =
     (let n = (of_char c :: nat) in if 97 \<le> n \<and> n \<le> 122 then char_of (n - 32) else c)"

definition py_lower :: "string \<Rightarrow> string" where
  "py_lower s = map lower_char s"

definition py_upper :: "string \<Rightarrow> string" where
  "py_upper s = map upper_char s"

text \<open>The ASCII characters for which \<open>str.isspace\<close> holds: TAB..CR, FS..US and space.\<close>

definition py_isspace :: "char \<Rightarrow> bool" where
  "py_isspace c =
     (let n = (of_char c :: nat) in (9 \<le> n \<and> n \<le> 13) \<or> (28 \<le> n \<and> n \<le> 32))"

definition py_strip :: "string \<Rightarrow> string" where
  "py_strip s = rev (dropWhile py_isspace (rev (dropWhile py_isspace s)))"

text \<open>
  \<open>sorted(xs, key=f, reverse=True)\<close>: the list is reversed, sorted by the stable
  ascending sort, and reversed again.
\<close>

definition py_sorted_reverse :: "('a \<Rightarrow> int) \<Rightarrow> 'a list \<Rightarrow> 'a list" where
  "py_sorted_reverse f xs = rev (sort_key f (rev xs))"

section \<open>Game state\<close>

definition WORD_BANK :: "string list" where
  "WORD_BANK =
    [''cat'', ''dog'', ''house'', ''tree'', ''car'', ''sun'', ''moon'', ''star'', ''flower'', ''bird'',
     ''fish'', ''book'', ''phone'', ''computer'', ''guitar'', ''piano'', ''camera'', ''bicycle'',
     ''umbrella'', ''chair'', ''table'', ''cup'', ''bottle'', ''shoe'', ''hat'', ''clock'',
     ''butterfly'', ''rainbow'', ''mountain'', ''beach'', ''ocean'', ''river'', ''bridge'',
     ''castle'', ''rocket'', ''airplane'', ''boat'', ''train'', ''pizza'', ''burger'', ''ice cream'',
     ''cake'', ''apple'', ''banana'', ''carrot'', ''elephant'', ''giraffe'', ''lion'', ''tiger'',
     ''penguin'', ''dolphin'', ''whale'', ''octopus'', ''spider'', ''butterfly'', ''snowman'',
     ''campfire'', ''tent'', ''backpack'', ''glasses'', ''crown'', ''sword'', ''shield'']"

record player =
  sid :: string
  username :: string
  score :: int
  is_host :: bool

record stroke =
  stroke_points :: "(int \<times> int) list"
  stroke_color :: string
  stroke_width :: int

record room =
  room_code :: string
  players :: "player list"
  max_players :: int
  game_started :: bool
  current_round :: int
  max_rounds :: int
  current_drawer_index :: int
  current_drawer_sid :: "string option"
  current_word :: "string option"
  strokes :: "stroke list"
  guessed_players :: "string list"
  round_start_time :: "rat option"

text \<open>What the server hands to Socket.IO: the event with its payload, and its addressee.\<close>

datatype target = To string | Room string

datatype payload =
    Error_msg string
  | Room_created string "player list"
  | Room_joined string "player list"
  | Player_joined "player list"
  | Player_left string "player list"
  | Game_started
  | New_round (nr_round: int) (nr_drawer: string) (nr_drawer_sid: string)
      (nr_word: string) (nr_word_length: int)
  | Round_end "string option" "player list"
  | Game_end "player list"
  | Correct_guess string int
  | Guess_result bool "int option"
  | Chat_message string string

datatype effect = Emit payload target | Enter_room string string

text \<open>
  Handlers are coroutines of one event loop.  A handler is taken to run without
  interruption up to an \<open>asyncio.sleep\<close> (awaiting \<open>sio.emit\<close> hands the event over
  and goes on), so the only suspended coroutines are \<open>round_timer\<close> before its check
  and \<open>end_round\<close> in its five-second pause before the next round.  When a sleep
  ends is left open: any pending coroutine may be the next to resume.
\<close>

datatype task = Round_timer string int | End_round_sleep string

text \<open>
  \<open>game_rooms\<close> is a dict, which keeps insertion order: an association list.
  \<open>outbox\<close> collects the calls made on \<open>sio\<close> in order, \<open>tasks\<close> the sleeping
  coroutines.
\<close>

record state =
  game_rooms :: "(string \<times> room) list"
  outbox :: "effect list"
  tasks :: "task list"

text \<open>
  The two inputs a handler reads from outside: the clock
  (\<open>datetime.now().timestamp()\<close>) and the index that \<open>random.choice\<close> draws for a
  round started in the given room.
\<close>

record env =
  timestamp :: rat
  rand_index :: "string \<Rightarrow> nat"

text \<open>
  A handler runs to its end or raises; the room dicts are mutated in place, so the
  state reached at the raise stays.
\<close>

datatype outcome = Done state | Raised py_error state

fun state_of :: "outcome \<Rightarrow> state" where
  "state_of (Done st) = st"
| "state_of (Raised e st) = st"

definition emit :: "payload \<Rightarrow> target \<Rightarrow> state \<Rightarrow> state" where
  "emit ev tgt st = st\<lparr>outbox := outbox st @ [Emit ev tgt]\<rparr>"

definition set_room :: "string \<Rightarrow> room \<Rightarrow> state \<Rightarrow> state" where
  "set_room code r st = st\<lparr>game_rooms := AList.update code r (game_rooms st)\<rparr>"

text \<open>
  \<open>random.choice(xs)\<close> is \<open>xs[i]\<close> for a drawn \<open>i\<close> below \<open>len(xs)\<close>; the draw of
  the environment is reduced modulo the length, so that every environment is a draw.
\<close>

definition random_choice :: "env \<Rightarrow> string \<Rightarrow> 'a list \<Rightarrow> 'a" where
  "random_choice e code xs = xs ! (rand_index e code mod length xs)"

text \<open>\<open>next((p for p in ps if p['sid'] == s), None)['score'] += n\<close>, when there is one.\<close>

fun add_score :: "string \<Rightarrow> int \<Rightarrow> player list \<Rightarrow> player list" where
  "add_score s n [] = []"
| "add_score s n (p # ps) =
     (if sid p = s then p\<lparr>score := score p + n\<rparr> # ps else p # add_score s n ps)"

section \<open>Handlers\<close>

text \<open>
  A handler takes the caller's sid, the fields of the event's \<open>data\<close> that it reads
  (a field that is absent has the default of \<open>data.get\<close>) and the state, and returns
  the state it leaves behind.
\<close>

definition create_room :: "string \<Rightarrow> string \<Rightarrow> string \<Rightarrow> state \<Rightarrow> state" where
  "create_room csid raw_code uname st =
     (let code = py_upper raw_code in
      if map_of (game_rooms st) code \<noteq> None
      then emit (Error_msg ''Room already exists'') (To csid) st
      else
        let r = \<lparr>room_code = code,
                 players = [\<lparr>sid = csid, username = uname, score = 0, is_host = True\<rparr>],
                 max_players = 8, game_started = False, current_round = 0, max_rounds = 3,
                 current_drawer_index = 0, current_drawer_sid = None, current_word = None,
                 strokes = [], guessed_players = [], round_start_time = None\<rparr>;
            st1 = set_room code r st;
            st2 = st1\<lparr>outbox := outbox st1 @ [Enter_room csid code]\<rparr>
        in emit (Room_created code (players r)) (To csid) st2)"

definition join_room :: "string \<Rightarrow> string \<Rightarrow> string \<Rightarrow> state \<Rightarrow> state" where
  "join_room csid raw_code uname st =
     (let code = py_upper raw_code in
      case map_of (game_rooms st) code of
        None \<Rightarrow> emit (Error_msg ''Room not found'') (To csid) st
      | Some r \<Rightarrow>
          if int (length (players r)) \<ge> max_players r
          then emit (Error_msg ''Room is full'') (To csid) st
          else if game_started r
          then emit (Error_msg ''Game already started'') (To csid) st
          else
            let r1 = r\<lparr>players := players r @
                         [\<lparr>sid = csid, username = uname, score = 0, is_host = False\<rparr>]\<rparr>;
                st1 = set_room code r1 st;
                st2 = st1\<lparr>outbox := outbox st1 @ [Enter_room csid code]\<rparr>;
                st3 = emit (Room_joined code (players r1)) (To csid) st2
            in emit (Player_joined (players r1)) (Room code) st3)"

definition start_new_round :: "env \<Rightarrow> string \<Rightarrow> state \<Rightarrow> outcome" where
  "start_new_round e code st =
     (case map_of (game_rooms st) code of
        None \<Rightarrow> Done st
      | Some r \<Rightarrow>
          (case py_index (players r) (current_drawer_index r) of
             None \<Rightarrow> Raised IndexError st
           | Some drawer \<Rightarrow>
               let word = random_choice e code WORD_BANK;
                   r1 = r\<lparr>current_drawer_sid := Some (sid drawer),
                          current_word := Some word,
                          strokes := [],
                          guessed_players := [],
                          round_start_time := Some (timestamp e)\<rparr>;
                   st1 = set_room code r1 st;
                   st2 = emit (New_round (current_round r1) (username drawer) (sid drawer)
                                 word (int (length word))) (To (sid drawer)) st1;
                   st3 = foldl (\<lambda>s p.
                            if sid p \<noteq> sid drawer
                            then emit (New_round (current_round r1) (username drawer) (sid drawer)
                                         (replicate (length word) (CHR ''_''))
                                         (int (length word))) (To (sid p)) s
                            else s) st2 (players r1)
               in Done (st3\<lparr>tasks := tasks st3 @ [Round_timer code 60]\<rparr>)))"

definition end_game :: "string \<Rightarrow> state \<Rightarrow> state" where
  "end_game code st =
     (case map_of (game_rooms st) code of
        None \<Rightarrow> st
      | Some r \<Rightarrow>
          let sorted_players = py_sorted_reverse score (players r);
              st1 = emit (Game_end sorted_players) (Room code) st;
              r1 = r\<lparr>game_started := False, current_round := 0, current_drawer_index := 0,
                     players := map (\<lambda>p. p\<lparr>score := 0\<rparr>) (players r)\<rparr>
          in set_room code r1 st1)"

definition end_round :: "string \<Rightarrow> state \<Rightarrow> outcome" where
  "end_round code st =
     (case map_of (game_rooms st) code of
        None \<Rightarrow> Done st
      | Some r \<Rightarrow>
          let ps1 = foldl (\<lambda>ps g. add_score g 100 ps) (players r) (guessed_players r);
              ps2 = (if length (guessed_players r) > 0
                     then (case current_drawer_sid r of
                             None \<Rightarrow> ps1
                           | Some d \<Rightarrow> add_score d 50 ps1)
                     else ps1);
              r1 = r\<lparr>players := ps2\<rparr>;
              st1 = emit (Round_end (current_word r1) (players r1)) (Room code)
                      (set_room code r1 st)
          in if length (players r1) = 0 then Raised ZeroDivisionError st1
             else
               let r2 = r1\<lparr>current_drawer_index :=
                             (current_drawer_index r1 + 1) mod int (length (players r1))\<rparr>;
                   r3 = (if current_drawer_index r2 = 0
                         then r2\<lparr>current_round := current_round r2 + 1\<rparr> else r2);
                   st2 = set_room code r3 st1
               in if current_round r3 > max_rounds r3 then Done (end_game code st2)
                  else Done (st2\<lparr>tasks := tasks st2 @ [End_round_sleep code]\<rparr>))"

text \<open>\<open>round_timer\<close> after its sleep, and \<open>end_round\<close> after its pause.\<close>

definition round_timer :: "string \<Rightarrow> int \<Rightarrow> state \<Rightarrow> outcome" where
  "round_timer code duration st =
     (if map_of (game_rooms st) code \<noteq> None then end_round code st else Done st)"

definition end_round_resume :: "env \<Rightarrow> string \<Rightarrow> state \<Rightarrow> outcome" where
  "end_round_resume e code st =
     (if map_of (game_rooms st) code \<noteq> None then start_new_round e code st else Done st)"

fun wake :: "env \<Rightarrow> task \<Rightarrow> state \<Rightarrow> outcome" where
  "wake e (Round_timer code duration) st = round_timer code duration st"
| "wake e (End_round_sleep code) st = end_round_resume e code st"

text \<open>The event loop resumes the \<open>i\<close>-th sleeping coroutine.\<close>

definition run_task :: "env \<Rightarrow> nat \<Rightarrow> state \<Rightarrow> outcome" where
  "run_task e i st =
     (if i < length (tasks st)
      then wake e (tasks st ! i) (st\<lparr>tasks := take i (tasks st) @ drop (Suc i) (tasks st)\<rparr>)
      else Done st)"

definition start_game :: "env \<Rightarrow> string \<Rightarrow> string \<Rightarrow> state \<Rightarrow> outcome" where
  "start_game e csid raw_code st =
     (let code = py_upper raw_code in
      case map_of (game_rooms st) code of
        None \<Rightarrow> Done (emit (Error_msg ''Room not found'') (To csid) st)
      | Some r \<Rightarrow>
          if \<not> list_ex (\<lambda>p. sid p = csid \<and> is_host p) (players r)
          then Done (emit (Error_msg ''Only host can start game'') (To csid) st)
          else if length (players r) < 2
          then Done (emit (Error_msg ''Need at least 2 players'') (To csid) st)
          else
            let r1 = r\<lparr>game_started := True, current_round := 1\<rparr>;
                st1 = emit Game_started (Room code) (set_room code r1 st)
            in start_new_round e code st1)"

text \<open>One pass of the loop of \<open>disconnect\<close> over the snapshot of \<open>game_rooms.items()\<close>.\<close>

definition disconnect_room :: "env \<Rightarrow> string \<Rightarrow> string \<times> room \<Rightarrow> state \<Rightarrow> outcome" where
  "disconnect_room e csid entry st =
     (let code = fst entry; r = snd entry;
          players_before = length (players r);
          r1 = r\<lparr>players := filter (\<lambda>p. sid p \<noteq> csid) (players r)\<rparr>;
          st1 = set_room code r1 st
      in if length (players r1) < players_before
         then
           if length (players r1) = 0
           then Done (st1\<lparr>game_rooms := AList.delete code (game_rooms st1)\<rparr>)
           else
             let st2 = emit (Player_left code (players r1)) (Room code) st1
             in if current_drawer_sid r1 = Some csid \<and> game_started r1
                then start_new_round e code st2
                else Done st2
         else Done st1)"

fun disconnect_loop :: "env \<Rightarrow> string \<Rightarrow> (string \<times> room) list \<Rightarrow> state \<Rightarrow> outcome" where
  "disconnect_loop e csid [] st = Done st"
| "disconnect_loop e csid (entry # rest) st =
     (case disconnect_room e csid entry st of
        Raised err st1 \<Rightarrow> Raised err st1
      | Done st1 \<Rightarrow> disconnect_loop e csid rest st1)"

definition disconnect :: "env \<Rightarrow> string \<Rightarrow> state \<Rightarrow> outcome" where
  "disconnect e csid st = disconnect_loop e csid (game_rooms st) st"

text \<open>The score of a correct guess, from the seconds since the round started.\<close>

definition points :: "rat \<Rightarrow> int" where
  "points time_elapsed = max 50 (200 - py_int (time_elapsed * 2))"

definition send_guess :: "env \<Rightarrow> string \<Rightarrow> string \<Rightarrow> string \<Rightarrow> state \<Rightarrow> outcome" where
  "send_guess e csid raw_code raw_guess st =
     (let code = py_upper raw_code; guess = py_strip (py_lower raw_guess) in
      case map_of (game_rooms st) code of
        None \<Rightarrow> Done st
      | Some r \<Rightarrow>
          if current_drawer_sid r = Some csid then Done st
          else if csid \<in> set (guessed_players r) then Done st
          else
            (case find (\<lambda>p. sid p = csid) (players r) of
               None \<Rightarrow> Done st
             | Some pl \<Rightarrow>
                 (case current_word r of
                    None \<Rightarrow> Raised AttributeError st
                  | Some word \<Rightarrow>
                      if guess = py_lower word
                      then
                        let r1 = r\<lparr>guessed_players := guessed_players r @ [csid]\<rparr> in
                        (case round_start_time r1 of
                           None \<Rightarrow> Raised TypeError (set_room code r1 st)
                         | Some t0 \<Rightarrow>
                             let pts = points (timestamp e - t0);
                                 r2 = r1\<lparr>players := add_score csid pts (players r1)\<rparr>;
                                 st1 = emit (Correct_guess (username pl) pts) (Room code)
                                         (set_room code r2 st);
                                 st2 = emit (Guess_result True (Some pts)) (To csid) st1
                             in if int (length (guessed_players r2))
                                     = int (length (players r2)) - 1
                                then end_round code st2
                                else Done st2)
                      else
                        let st1 = emit (Chat_message (username pl) guess) (Room code) st
                        in Done (emit (Guess_result False None) (To csid) st1))))"

definition send_message :: "string \<Rightarrow> string \<Rightarrow> string \<Rightarrow> state \<Rightarrow> state" where
  "send_message csid raw_code message st =
     (let code = py_upper raw_code in
      if map_of (game_rooms st) code = None then st
      else
        (case find (\<lambda>p. sid p = csid) (concat (map (\<lambda>kv. players (snd kv)) (game_rooms st))) of
           None \<Rightarrow> st
         | Some pl \<Rightarrow> emit (Chat_message (username pl) message) (Room code) st))"

section \<open>Example runs\<close>

text \<open>
  Alice creates room \<open>abcd\<close>, Bob joins, Alice starts the game at time 1000; every draw
  of \<open>random.choice\<close> is index 0, the word \<open>cat\<close>.
\<close>

definition env_at :: "rat \<Rightarrow> env" where
  "env_at t = \<lparr>timestamp = t, rand_index = (\<lambda>code. 0)\<rparr>"

definition ex_empty :: state where
  "ex_empty = \<lparr>game_rooms = [], outbox = [], tasks = []\<rparr>"

definition ex_created :: state where
  "ex_created = create_room ''a'' ''abcd'' ''Alice'' ex_empty"

definition ex_created_room :: room where
  "ex_created_room =
     \<lparr>room_code = ''ABCD'',
      players = [\<lparr>sid = ''a'', username = ''Alice'', score = 0, is_host = True\<rparr>],
      max_players = 8, game_started = False, current_round = 0, max_rounds = 3,
      current_drawer_index = 0, current_drawer_sid = None, current_word = None,
      strokes = [], guessed_players = [], round_start_time = None\<rparr>"

definition ex_lobby :: state where
  "ex_lobby = join_room ''b'' ''abcd'' ''Bob'' ex_created"

definition ex_playing :: state where
  "ex_playing = state_of (start_game (env_at 1000) ''a'' ''abcd'' ex_lobby)"

definition ex_room :: room where
  "ex_room =
     \<lparr>room_code = ''ABCD'',
      players = [\<lparr>sid = ''a'', username = ''Alice'', score = 0, is_host = True\<rparr>,
                 \<lparr>sid = ''b'', username = ''Bob'', score = 0, is_host = False\<rparr>],
      max_players = 8, game_started = True, current_round = 1, max_rounds = 3,
      current_drawer_index = 0, current_drawer_sid = Some ''a'', current_word = Some ''cat'',
      strokes = [], guessed_players = [], round_start_time = Some 1000\<rparr>"

text \<open>A finished game of three: Alice and Carol are level, Bob leads.\<close>

definition ex_final_room :: room where
  "ex_final_room =
     \<lparr>room_code = ''ABCD'',
      players = [\<lparr>sid = ''a'', username = ''Alice'', score = 100, is_host = True\<rparr>,
                 \<lparr>sid = ''b'', username = ''Bob'', score = 250, is_host = False\<rparr>,
                 \<lparr>sid = ''c'', username = ''Carol'', score = 100, is_host = False\<rparr>],
      max_players = 8, game_started = True, current_round = 4, max_rounds = 3,
      current_drawer_index = 0, current_drawer_sid = Some ''c'', current_word = Some ''dog'',
      strokes = [], guessed_players = [''b''], round_start_time = Some 1000\<rparr>"

definition ex_final :: state where
  "ex_final = \<lparr>game_rooms = [(''ABCD'', ex_final_room)], outbox = [], tasks = []\<rparr>"

text \<open>
  Bob, who has his own room \<open>two\<close>, next to Alice's.
\<close>

definition ex_two_rooms :: state where
  "ex_two_rooms = create_room ''b'' ''two'' ''Bob'' ex_created"

text \<open>
  Bob guesses the word 57 seconds into the first round.  Or nobody guesses: the timer
  of the first round fires at 1060, the pause ends at 1065 and Bob draws.
\<close>

definition ex_guessed :: state where
  "ex_guessed = state_of (send_guess (env_at 1057) ''b'' ''abcd'' ''cat'' ex_playing)"

definition ex_round_over :: state where
  "ex_round_over = state_of (run_task (env_at 1060) 0 ex_playing)"

definition ex_second_round :: state where
  "ex_second_round = state_of (run_task (env_at 1065) 0 ex_round_over)"

text \<open>
  A game of three: Carol joins before Alice starts the game, and Bob finds the word 57
  seconds into the first round, which goes on for Carol.
\<close>

definition ex_three_started :: state where
  "ex_three_started =
     state_of (start_game (env_at 1000) ''a'' ''abcd''
       (join_room ''c'' ''abcd'' ''Carol'' ex_lobby))"

definition ex_three_playing :: state where
  "ex_three_playing =
     state_of (send_guess (env_at 1057) ''b'' ''abcd'' ''cat'' ex_three_started)"

definition ex_three_room :: room where
  "ex_three_room =
     \<lparr>room_code = ''ABCD'',
      players = [\<lparr>sid = ''a'', username = ''Alice'', score = 0, is_host = True\<rparr>,
                 \<lparr>sid = ''b'', username = ''Bob'', score = 86, is_host = False\<rparr>,
                 \<lparr>sid = ''c'', username = ''Carol'', score = 0, is_host = False\<rparr>],
      max_players = 8, game_started = True, current_round = 1, max_rounds = 3,
      current_drawer_index = 0, current_drawer_sid = Some ''a'', current_word = Some ''cat'',
      strokes = [], guessed_players = [''b''], round_start_time = Some 1000\<rparr>"

text \<open>
  Two games at once: next to the game of Alice and Bob, Bob opens room \<open>two\<close>, Carol
  joins it and Bob starts it at 1005, so that Bob guesses in one room and draws in the
  other.
\<close>

definition ex_two_games :: state where
  "ex_two_games =
     state_of (start_game (env_at 1005) ''b'' ''two''
       (join_room ''c'' ''two'' ''Carol'' (create_room ''b'' ''two'' ''Bob'' ex_playing)))"

definition ex_two_room :: room where
  "ex_two_room =
     \<lparr>room_code = ''TWO'',
      players = [\<lparr>sid = ''b'', username = ''Bob'', score = 0, is_host = True\<rparr>,
                 \<lparr>sid = ''c'', username = ''Carol'', score = 0, is_host = False\<rparr>],
      max_players = 8, game_started = True, current_round = 1, max_rounds = 3,
      current_drawer_index = 0, current_drawer_sid = Some ''b'', current_word = Some ''cat'',
      strokes = [], guessed_players = [], round_start_time = Some 1005\<rparr>"

section \<open>Derived notions\<close>

text \<open>The \<open>round_end\<close> events among what the server emits.\<close>

fun is_round_end :: "effect \<Rightarrow> bool" where
  "is_round_end (Emit (Round_end w ps) tgt) = True"
| "is_round_end ev = False"

text \<open>The scores of a room, in roster order.\<close>

definition scores_in :: "string \<Rightarrow> state \<Rightarrow> int list" where
  "scores_in code st =
     (case map_of (game_rooms st) code of None \<Rightarrow> [] | Some r \<Rightarrow> map score (players r))"

text \<open>The roster after the awards of \<open>end_round\<close>.\<close>

definition awarded :: "room \<Rightarrow> player list" where
  "awarded r =
     (let ps1 = foldl (\<lambda>ps g. add_score g 100 ps) (players r) (guessed_players r)
      in if length (guessed_players r) > 0
         then (case current_drawer_sid r of None \<Rightarrow> ps1 | Some d \<Rightarrow> add_score d 50 ps1)
         else ps1)"

text \<open>The \<open>new_round\<close> events of a round of room \<open>r\<close> drawn by \<open>d\<close> with word \<open>w\<close>.\<close>

definition round_events :: "room \<Rightarrow> player \<Rightarrow> string \<Rightarrow> effect list" where
  "round_events r d w =
     Emit (New_round (current_round r) (username d) (sid d) w (int (length w))) (To (sid d))
     # map (\<lambda>p. Emit (New_round (current_round r) (username d) (sid d)
                        (replicate (length w) (CHR ''_'')) (int (length w))) (To (sid p)))
         (filter (\<lambda>p. sid p \<noteq> sid d) (players r))"

text \<open>The room a round starts in, once \<open>start_new_round\<close> has set it up.\<close>

definition round_room :: "env \<Rightarrow> string \<Rightarrow> room \<Rightarrow> player \<Rightarrow> room" where
  "round_room e code r d =
     r\<lparr>current_drawer_sid := Some (sid d),
       current_word := Some (random_choice e code WORD_BANK),
       strokes := [], guessed_players := [],
       round_start_time := Some (timestamp e)\<rparr>"

text \<open>
  The specification's guess evaluator, in its own words:
  \<open>normalize(text) = trim(lowercase(text))\<close> and
  \<open>Matches(guess, secret) = (normalize(guess) == normalize(secret))\<close>.
\<close>

definition spec_normalize :: "string \<Rightarrow> string" where
  "spec_normalize text = py_strip (py_lower text)"

definition spec_matches :: "string \<Rightarrow> string \<Rightarrow> bool" where
  "spec_matches guess secret = (spec_normalize guess = spec_normalize secret)"

section \<open>Basic facts\<close>

lemma outbox_set_room [simp]: "outbox (set_room code r st) = outbox st"
  by (simp add: set_room_def)

lemma tasks_set_room [simp]: "tasks (set_room code r st) = tasks st"
  by (simp add: set_room_def)

lemma game_rooms_set_room [simp]:
  "game_rooms (set_room code r st) = AList.update code r (game_rooms st)"
  by (simp add: set_room_def)

lemma outbox_emit [simp]: "outbox (emit ev tgt st) = outbox st @ [Emit ev tgt]"
  by (simp add: emit_def)

lemma tasks_emit [simp]: "tasks (emit ev tgt st) = tasks st"
  by (simp add: emit_def)

lemma game_rooms_emit [simp]: "game_rooms (emit ev tgt st) = game_rooms st"
  by (simp add: emit_def)

lemma ex_playing_room: "map_of (game_rooms ex_playing) ''ABCD'' = Some ex_room"
  by code_simp

lemma outbox_end_game:
  "outbox (end_game code st) =
     outbox st @ (case map_of (game_rooms st) code of
                    None \<Rightarrow> []
                  | Some r \<Rightarrow> [Emit (Game_end (py_sorted_reverse score (players r))) (Room code)])"
  by (simp add: end_game_def Let_def split: option.split)

lemma outbox_end_round:
  "\<exists>rest. outbox (state_of (end_round code st)) =
     outbox st @ (case map_of (game_rooms st) code of
                    None \<Rightarrow> []
                  | Some r \<Rightarrow> Emit (Round_end (current_word r) (awarded r)) (Room code) # rest)"
  by (simp add: end_round_def awarded_def Let_def outbox_end_game split: option.split)

lemma py_int_mono: "x \<le> y \<Longrightarrow> py_int x \<le> py_int y"
proof -
  assume xy: "x \<le> y"
  consider "0 \<le> x" | "x < 0" "y < 0" | "x < 0" "0 \<le> y" by linarith
  then show ?thesis
  proof cases
    case 1
    with xy show ?thesis by (simp add: py_int_def floor_mono)
  next
    case 2
    with xy show ?thesis by (simp add: py_int_def ceiling_mono)
  next
    case 3
    then have "\<lceil>x\<rceil> \<le> 0" "0 \<le> \<lfloor>y\<rfloor>" by (simp_all add: ceiling_le_zero)
    then have "\<lceil>x\<rceil> \<le> \<lfloor>y\<rfloor>" by linarith
    with 3 show ?thesis by (simp add: py_int_def)
  qed
qed

lemma ex_created_room: "map_of (game_rooms ex_created) ''ABCD'' = Some ex_created_room"
  by code_simp

lemma length_add_score [simp]: "length (add_score s n ps) = length ps"
  by (induction ps) simp_all

lemma foldl_emit:
  "foldl (\<lambda>s p. if P p then emit (f p) (g p) s else s) st ps
     = st\<lparr>outbox := outbox st @ map (\<lambda>p. Emit (f p) (g p)) (filter P ps)\<rparr>"
  by (induction ps arbitrary: st) (simp_all add: emit_def)

lemma random_choice_in: "xs \<noteq> [] \<Longrightarrow> random_choice e code xs \<in> set xs"
  by (simp add: random_choice_def)

lemma WORD_BANK_nonempty: "WORD_BANK \<noteq> []"
  by (simp add: WORD_BANK_def)

text \<open>The two ways \<open>start_new_round\<close> goes in a room that exists.\<close>

lemma start_new_round_Some:
  assumes "map_of (game_rooms st) code = Some r"
    and "py_index (players r) (current_drawer_index r) = Some d"
  shows "start_new_round e code st =
     Done (st\<lparr>game_rooms := AList.update code (round_room e code r d) (game_rooms st),
              outbox := outbox st @ round_events r d (random_choice e code WORD_BANK),
              tasks := tasks st @ [Round_timer code 60]\<rparr>)"
  using assms
  by (simp add: start_new_round_def Let_def foldl_emit round_events_def round_room_def
      emit_def set_room_def)

lemma start_new_round_None:
  assumes "map_of (game_rooms st) code = Some r"
    and "py_index (players r) (current_drawer_index r) = None"
  shows "start_new_round e code st = Raised IndexError st"
  using assms by (simp add: start_new_round_def)

text \<open>The two ways \<open>send_guess\<close> goes for a player who may guess.\<close>

lemma send_guess_hit:
  assumes "map_of (game_rooms st) (py_upper rc) = Some r"
    and "current_drawer_sid r \<noteq> Some csid"
    and "csid \<notin> set (guessed_players r)"
    and "find (\<lambda>p. sid p = csid) (players r) = Some pl"
    and "current_word r = Some w"
    and "py_strip (py_lower g) = py_lower w"
    and "round_start_time r = Some t0"
  shows "send_guess e csid rc g st =
     (let pts = points (timestamp e - t0);
          st2 = emit (Guess_result True (Some pts)) (To csid)
                  (emit (Correct_guess (username pl) pts) (Room (py_upper rc))
                     (set_room (py_upper rc)
                        (r\<lparr>guessed_players := guessed_players r @ [csid],
                           players := add_score csid pts (players r)\<rparr>) st))
      in if int (length (guessed_players r)) + 1 = int (length (players r)) - 1
         then end_round (py_upper rc) st2 else Done st2)"
  using assms by (simp add: send_guess_def Let_def)

lemma send_guess_miss:
  assumes "map_of (game_rooms st) (py_upper rc) = Some r"
    and "current_drawer_sid r \<noteq> Some csid"
    and "csid \<notin> set (guessed_players r)"
    and "find (\<lambda>p. sid p = csid) (players r) = Some pl"
    and "current_word r = Some w"
    and "py_strip (py_lower g) \<noteq> py_lower w"
  shows "send_guess e csid rc g st =
     Done (st\<lparr>outbox := outbox st @
             [Emit (Chat_message (username pl) (py_strip (py_lower g))) (Room (py_upper rc)),
              Emit (Guess_result False None) (To csid)]\<rparr>)"
  using assms by (simp add: send_guess_def Let_def emit_def)

lemma send_guess_correct_outbox:
  assumes "map_of (game_rooms st) (py_upper rc) = Some r"
    and "current_drawer_sid r \<noteq> Some csid"
    and "csid \<notin> set (guessed_players r)"
    and "find (\<lambda>p. sid p = csid) (players r) = Some pl"
    and "current_word r = Some w"
    and "py_strip (py_lower g) = py_lower w"
    and "round_start_time r = Some t0"
  shows "\<exists>rest. outbox (state_of (send_guess e csid rc g st)) =
           outbox st @ [Emit (Correct_guess (username pl) (points (timestamp e - t0)))
                          (Room (py_upper rc)),
                        Emit (Guess_result True (Some (points (timestamp e - t0)))) (To csid)]
                     @ rest"
proof -
  let ?pts = "points (timestamp e - t0)"
  let ?st2 = "emit (Guess_result True (Some ?pts)) (To csid)
                (emit (Correct_guess (username pl) ?pts) (Room (py_upper rc))
                   (set_room (py_upper rc)
                      (r\<lparr>guessed_players := guessed_players r @ [csid],
                         players := add_score csid ?pts (players r)\<rparr>) st))"
  have sg: "send_guess e csid rc g st =
      (if int (length (guessed_players r)) + 1 = int (length (players r)) - 1
       then end_round (py_upper rc) ?st2 else Done ?st2)"
    using send_guess_hit [OF assms, of e] by (simp add: Let_def)
  obtain rest where "outbox (state_of (end_round (py_upper rc) ?st2)) = outbox ?st2 @ rest"
    using outbox_end_round [of "py_upper rc" ?st2] by (auto split: option.splits)
  then show ?thesis
    unfolding sg
    by (cases "int (length (guessed_players r)) + 1 = int (length (players r)) - 1") simp_all
qed

text \<open>\<open>add_score\<close> raises the score of the first player with the sid, and of nobody else.\<close>

lemma add_score_first:
  "find (\<lambda>p. sid p = s) ps = Some pl \<Longrightarrow>
     \<exists>before after. ps = before @ pl # after \<and> (\<forall>p\<in>set before. sid p \<noteq> s)
        \<and> add_score s n ps = before @ pl\<lparr>score := score pl + n\<rparr> # after"
proof (induction ps)
  case Nil
  then show ?case by simp
next
  case (Cons q qs)
  show ?case
  proof (cases "sid q = s")
    case True
    with Cons.prems have "q = pl" by simp
    with True have "q # qs = [] @ pl # qs \<and> (\<forall>p\<in>set []. sid p \<noteq> s)
        \<and> add_score s n (q # qs) = [] @ pl\<lparr>score := score pl + n\<rparr> # qs"
      by simp
    then show ?thesis by blast
  next
    case False
    with Cons.prems have "find (\<lambda>p. sid p = s) qs = Some pl" by simp
    then obtain before after where ba: "qs = before @ pl # after"
        "\<forall>p\<in>set before. sid p \<noteq> s"
        "add_score s n qs = before @ pl\<lparr>score := score pl + n\<rparr> # after"
      using Cons.IH by blast
    with False have "q # qs = (q # before) @ pl # after
        \<and> (\<forall>p\<in>set (q # before). sid p \<noteq> s)
        \<and> add_score s n (q # qs) = (q # before) @ pl\<lparr>score := score pl + n\<rparr> # after"
      by simp
    then show ?thesis by blast
  qed
qed

lemma ex_three_started_room:
  "game_rooms ex_three_started =
     [(''ABCD'', ex_three_room\<lparr>players :=
         [\<lparr>sid = ''a'', username = ''Alice'', score = 0, is_host = True\<rparr>,
          \<lparr>sid = ''b'', username = ''Bob'', score = 0, is_host = False\<rparr>,
          \<lparr>sid = ''c'', username = ''Carol'', score = 0, is_host = False\<rparr>],
        guessed_players := []\<rparr>)]"
  by code_simp

text \<open>\<open>start_new_round\<close> emits no \<open>round_end\<close> and touches its own room only.\<close>

lemma round_events_no_round_end: "\<forall>ev\<in>set (round_events r d w). \<not> is_round_end ev"
  by (auto simp: round_events_def)

lemma start_new_round_outbox:
  "\<exists>evs. outbox (state_of (start_new_round e c s)) = outbox s @ evs
         \<and> (\<forall>ev\<in>set evs. \<not> is_round_end ev)"
proof (cases "map_of (game_rooms s) c")
  case None
  then show ?thesis by (simp add: start_new_round_def)
next
  case (Some r)
  show ?thesis
  proof (cases "py_index (players r) (current_drawer_index r)")
    case None
    with Some show ?thesis by (simp add: start_new_round_None)
  next
    case (Some d)
    with \<open>map_of (game_rooms s) c = Some r\<close> show ?thesis
      using round_events_no_round_end by (simp add: start_new_round_Some)
  qed
qed

lemma start_new_round_other:
  "k \<noteq> c \<Longrightarrow> map_of (game_rooms (state_of (start_new_round e c s))) k = map_of (game_rooms s) k"
proof (cases "map_of (game_rooms s) c")
  case None
  then show ?thesis by (simp add: start_new_round_def)
next
  case (Some r)
  assume ne: "k \<noteq> c"
  show ?thesis
  proof (cases "py_index (players r) (current_drawer_index r)")
    case None
    with Some show ?thesis by (simp add: start_new_round_None)
  next
    case (Some d)
    with \<open>map_of (game_rooms s) c = Some r\<close> ne show ?thesis
      by (simp add: start_new_round_Some AList.update_conv')
  qed
qed

lemma start_new_round_same:
  assumes "map_of (game_rooms s) c = Some r"
  shows "\<exists>r'. map_of (game_rooms (state_of (start_new_round e c s))) c = Some r'
           \<and> players r' = players r \<and> current_drawer_index r' = current_drawer_index r
           \<and> current_round r' = current_round r"
proof (cases "py_index (players r) (current_drawer_index r)")
  case None
  with assms show ?thesis by (simp add: start_new_round_None)
next
  case (Some d)
  with assms show ?thesis
    by (simp add: start_new_round_Some AList.update_conv' round_room_def)
qed

section \<open>Scoring a correct guess\<close>

text \<open>
  C4, as the claim states it, fails: the guesser does not get \<open>max(50, 200 - 2*floor(e))\<close>.
  Half a second after the round started the award is 199, not 200.
\<close>

theorem points_not_two_per_whole_second:
  "points (1 / 2) = 199 \<and> max 50 (200 - 2 * \<lfloor>1 / 2 :: rat\<rfloor>) = 200"
proof -
  have "\<lfloor>1 / 2 :: rat\<rfloor> = 0" by (rule floor_unique) simp_all
  then show ?thesis by (simp add: points_def py_int_def)
qed

text \<open>
  C4, amended: a correct guess made \<open>el\<close> seconds after the round started awards the
  guesser \<open>max(50, 200 - int(2 * el))\<close> points, the doubled time being truncated to an
  integer (its floor when \<open>el\<close> is not negative): the score of the guesser (the first
  player of the roster with the sid) grows by exactly this number, no other score
  changes, and the \<open>correct_guess\<close> and \<open>guess_result\<close> events carry the same number;
  only then, when the guess is the last one missing, \<open>end_round\<close> follows.  The award
  is 200 at \<open>el = 0\<close>, 50 at \<open>el = 75\<close>, never below 50, and does not increase with
  \<open>el\<close>.
\<close>

theorem points_per_half_second:
  assumes "map_of (game_rooms st) (py_upper rc) = Some r"
    and "current_drawer_sid r \<noteq> Some csid"
    and "csid \<notin> set (guessed_players r)"
    and "find (\<lambda>p. sid p = csid) (players r) = Some pl"
    and "current_word r = Some w"
    and "py_strip (py_lower g) = py_lower w"
    and "round_start_time r = Some t0"
    and "el = timestamp e - t0"
    and "st2 = st\<lparr>game_rooms := AList.update (py_upper rc)
                     (r\<lparr>guessed_players := guessed_players r @ [csid],
                        players := add_score csid (points el) (players r)\<rparr>) (game_rooms st),
                   outbox := outbox st @
                     [Emit (Correct_guess (username pl) (points el)) (Room (py_upper rc)),
                      Emit (Guess_result True (Some (points el))) (To csid)]\<rparr>"
  shows "send_guess e csid rc g st =
           (if int (length (guessed_players r)) + 1 = int (length (players r)) - 1
            then end_round (py_upper rc) st2 else Done st2)
       \<and> (\<exists>before after. players r = before @ pl # after
             \<and> (\<forall>p\<in>set before. sid p \<noteq> csid)
             \<and> add_score csid (points el) (players r)
                 = before @ pl\<lparr>score := score pl + points el\<rparr> # after)
       \<and> (\<exists>rest. outbox (state_of (send_guess e csid rc g st)) =
            outbox st @ [Emit (Correct_guess (username pl) (points el)) (Room (py_upper rc)),
                         Emit (Guess_result True (Some (points el))) (To csid)] @ rest)
       \<and> points el = max 50 (200 - py_int (2 * el))
       \<and> (0 \<le> el \<longrightarrow> points el = max 50 (200 - \<lfloor>2 * el\<rfloor>))
       \<and> points 0 = 200 \<and> points 75 = 50 \<and> 50 \<le> points el
       \<and> (\<forall>el'. el \<le> el' \<longrightarrow> points el' \<le> points el)"
proof -
  have mono: "points y \<le> points x" if "x \<le> y" for x y
  proof -
    from that have "py_int (x * 2) \<le> py_int (y * 2)" by (intro py_int_mono) simp
    then show ?thesis by (simp add: points_def)
  qed
  have run: "send_guess e csid rc g st =
           (if int (length (guessed_players r)) + 1 = int (length (players r)) - 1
            then end_round (py_upper rc) st2 else Done st2)"
    using send_guess_hit [OF assms(1-7), of e]
    by (simp add: Let_def assms(8,9) emit_def set_room_def)
  have award: "\<exists>before after. players r = before @ pl # after
             \<and> (\<forall>p\<in>set before. sid p \<noteq> csid)
             \<and> add_score csid (points el) (players r)
                 = before @ pl\<lparr>score := score pl + points el\<rparr> # after"
    using assms(4) by (rule add_score_first)
  have "points el = max 50 (200 - py_int (2 * el))"
    by (simp add: points_def mult.commute)
  moreover have "0 \<le> el \<longrightarrow> points el = max 50 (200 - \<lfloor>2 * el\<rfloor>)"
    by (simp add: points_def py_int_def mult.commute)
  moreover have "points 0 = 200" "points 75 = 50"
    by (simp_all add: points_def py_int_def)
  moreover have "50 \<le> points el"
    by (simp add: points_def)
  ultimately show ?thesis
    using send_guess_correct_outbox [OF assms(1-7), of e] assms(8) mono run award by blast
qed

theorem points_per_half_second_witness:
  "send_guess (env_at (2001 / 2)) ''b'' ''abcd'' ''  CAT '' ex_three_started =
     Done (ex_three_started\<lparr>game_rooms :=
         [(''ABCD'', ex_three_room\<lparr>players :=
             [\<lparr>sid = ''a'', username = ''Alice'', score = 0, is_host = True\<rparr>,
              \<lparr>sid = ''b'', username = ''Bob'', score = 199, is_host = False\<rparr>,
              \<lparr>sid = ''c'', username = ''Carol'', score = 0, is_host = False\<rparr>]\<rparr>)],
       outbox := outbox ex_three_started @
         [Emit (Correct_guess ''Bob'' 199) (Room ''ABCD''),
          Emit (Guess_result True (Some 199)) (To ''b'')]\<rparr>)
   \<and> points (1 / 2) = max 50 (200 - \<lfloor>2 * (1 / 2 :: rat)\<rfloor>)
   \<and> points (3 / 2) \<le> points (1 / 2)"
proof -
  let ?alice = "\<lparr>sid = ''a'', username = ''Alice'', score = 0, is_host = True\<rparr>"
  let ?bob = "\<lparr>sid = ''b'', username = ''Bob'', score = 0, is_host = False\<rparr>"
  let ?carol = "\<lparr>sid = ''c'', username = ''Carol'', score = 0, is_host = False\<rparr>"
  let ?r = "ex_three_room\<lparr>players := [?alice, ?bob, ?carol], guessed_players := []\<rparr>"
  have up: "py_upper ''abcd'' = ''ABCD''" by code_simp
  have h1: "map_of (game_rooms ex_three_started) (py_upper ''abcd'') = Some ?r"
    by (simp add: up ex_three_started_room)
  have h2: "current_drawer_sid ?r \<noteq> Some ''b''" by (simp add: ex_three_room_def)
  have h3: "''b'' \<notin> set (guessed_players ?r)" by simp
  have h4: "find (\<lambda>p. sid p = ''b'') (players ?r) = Some ?bob" by simp
  have h5: "current_word ?r = Some ''cat''" by (simp add: ex_three_room_def)
  have h6: "py_strip (py_lower ''  CAT '') = py_lower ''cat''" by code_simp
  have h7: "round_start_time ?r = Some 1000" by (simp add: ex_three_room_def)
  have h8: "(1 / 2 :: rat) = timestamp (env_at (2001 / 2)) - 1000" by (simp add: env_at_def)
  have p: "points (1 / 2) = 199" by (simp add: points_def py_int_def)
  have le: "(1 / 2 :: rat) \<le> 3 / 2" by simp
  have notlast: "int (length (guessed_players ?r)) + 1 \<noteq> int (length (players ?r)) - 1"
    by simp
  show ?thesis
    using points_per_half_second [OF h1 h2 h3 h4 h5 h6 h7 h8 refl] p le notlast
    by (simp add: up ex_three_started_room ex_three_room_def)
qed

section \<open>The end of a game\<close>

lemma mset_py_sorted_reverse: "mset (py_sorted_reverse f xs) = mset xs"
  by (simp add: py_sorted_reverse_def)

lemma descending_py_sorted_reverse:
  "sorted_wrt (\<lambda>p q. f q \<le> f p) (py_sorted_reverse f xs)"
proof -
  have "sorted (map f (sort_key f (rev xs)))" by (rule sorted_sort_key)
  then have "sorted_wrt (\<lambda>p q. f p \<le> f q) (sort_key f (rev xs))"
    by (simp add: sorted_map)
  then show ?thesis
    by (simp add: py_sorted_reverse_def sorted_wrt_rev)
qed

lemma stable_py_sorted_reverse:
  "filter (\<lambda>p. f p = k) (py_sorted_reverse f xs) = filter (\<lambda>p. f p = k) xs"
proof -
  have "filter (\<lambda>p. f p = k) (py_sorted_reverse f xs)
          = rev (filter (\<lambda>p. f p = k) (sort_key f (rev xs)))"
    by (simp add: py_sorted_reverse_def rev_filter)
  also have "\<dots> = rev (filter (\<lambda>p. f p = k) (rev xs))"
    by (simp only: sort_key_stable)
  also have "\<dots> = filter (\<lambda>p. f p = k) xs"
    by (simp add: rev_filter)
  finally show ?thesis .
qed

text \<open>
  C7: \<open>end_game\<close> emits \<open>game_end\<close> with a scoreboard that holds exactly the roster
  (as a multiset), in descending order of score, players of equal score in their join
  order (for every score \<open>k\<close>, the players with score \<open>k\<close> appear as in the roster);
  afterwards the room has \<open>game_started = False\<close>, \<open>current_round = 0\<close>,
  \<open>current_drawer_index = 0\<close> and the same roster in the same order with every score 0.
  Nothing else in the room, no other room and no pending task changes.
\<close>

theorem end_game_scoreboard_then_reset:
  assumes "map_of (game_rooms st) code = Some r"
  shows "outbox (end_game code st) =
           outbox st @ [Emit (Game_end (py_sorted_reverse score (players r))) (Room code)]
       \<and> mset (py_sorted_reverse score (players r)) = mset (players r)
       \<and> sorted_wrt (\<lambda>p q. score q \<le> score p) (py_sorted_reverse score (players r))
       \<and> (\<forall>k. filter (\<lambda>p. score p = k) (py_sorted_reverse score (players r))
                = filter (\<lambda>p. score p = k) (players r))
       \<and> game_rooms (end_game code st) =
           AList.update code
             (r\<lparr>game_started := False, current_round := 0, current_drawer_index := 0,
                players := map (\<lambda>p. p\<lparr>score := 0\<rparr>) (players r)\<rparr>) (game_rooms st)
       \<and> tasks (end_game code st) = tasks st"
  using assms
  by (simp add: end_game_def Let_def mset_py_sorted_reverse descending_py_sorted_reverse
      stable_py_sorted_reverse)

theorem end_game_scoreboard_then_reset_witness:
  "outbox (end_game ''ABCD'' ex_final) =
     [Emit (Game_end [\<lparr>sid = ''b'', username = ''Bob'', score = 250, is_host = False\<rparr>,
                      \<lparr>sid = ''a'', username = ''Alice'', score = 100, is_host = True\<rparr>,
                      \<lparr>sid = ''c'', username = ''Carol'', score = 100, is_host = False\<rparr>])
        (Room ''ABCD'')]
   \<and> game_rooms (end_game ''ABCD'' ex_final) =
       [(''ABCD'', ex_final_room\<lparr>game_started := False, current_round := 0,
           current_drawer_index := 0,
           players := [\<lparr>sid = ''a'', username = ''Alice'', score = 0, is_host = True\<rparr>,
                       \<lparr>sid = ''b'', username = ''Bob'', score = 0, is_host = False\<rparr>,
                       \<lparr>sid = ''c'', username = ''Carol'', score = 0, is_host = False\<rparr>]\<rparr>)]"
proof -
  have h: "map_of (game_rooms ex_final) ''ABCD'' = Some ex_final_room"
    by (simp add: ex_final_def)
  have b: "py_sorted_reverse score (players ex_final_room) =
      [\<lparr>sid = ''b'', username = ''Bob'', score = 250, is_host = False\<rparr>,
       \<lparr>sid = ''a'', username = ''Alice'', score = 100, is_host = True\<rparr>,
       \<lparr>sid = ''c'', username = ''Carol'', score = 100, is_host = False\<rparr>]"
    by (simp add: py_sorted_reverse_def ex_final_room_def)
  show ?thesis
    using end_game_scoreboard_then_reset [OF h] b
    by (simp add: ex_final_def ex_final_room_def)
qed

section \<open>The start of a round\<close>

text \<open>
  C8: when \<open>start_new_round\<close> starts a round with the word \<open>w\<close> (an entry of the word
  bank), it emits \<open>new_round\<close> to the drawer with the word \<open>w\<close> itself, and then
  \<open>new_round\<close> to every player whose sid is not the drawer's with a word that consists
  of underscores only and is as long as \<open>w\<close>; all of these events carry the same
  \<open>word_length\<close>, the length of \<open>w\<close>.  Nothing else is emitted.
\<close>

theorem new_round_word_and_mask:
  assumes "map_of (game_rooms st) code = Some r"
    and "py_index (players r) (current_drawer_index r) = Some d"
    and "w = random_choice e code WORD_BANK"
  shows "w \<in> set WORD_BANK
       \<and> (\<exists>st'. start_new_round e code st = Done st'
            \<and> (\<exists>r'. map_of (game_rooms st') code = Some r' \<and> current_word r' = Some w
                    \<and> current_drawer_sid r' = Some (sid d))
            \<and> outbox st' = outbox st @
                 Emit (New_round (current_round r) (username d) (sid d) w (int (length w)))
                   (To (sid d))
                 # map (\<lambda>p. Emit (New_round (current_round r) (username d) (sid d)
                                    (replicate (length w) (CHR ''_'')) (int (length w)))
                                (To (sid p)))
                     (filter (\<lambda>p. sid p \<noteq> sid d) (players r)))
       \<and> set (replicate (length w) (CHR ''_'')) \<subseteq> {CHR ''_''}
       \<and> length (replicate (length w) (CHR ''_'')) = length w"
  using assms
  by (auto simp: start_new_round_Some round_events_def round_room_def random_choice_in
      WORD_BANK_nonempty AList.update_conv')

theorem new_round_word_and_mask_witness:
  "''cat'' \<in> set WORD_BANK
   \<and> outbox (state_of (start_new_round (env_at 1000) ''ABCD'' ex_final)) =
       [Emit (New_round 4 ''Alice'' ''a'' ''cat'' 3) (To ''a''),
        Emit (New_round 4 ''Alice'' ''a'' ''___'' 3) (To ''b''),
        Emit (New_round 4 ''Alice'' ''a'' ''___'' 3) (To ''c'')]"
proof -
  have h1: "map_of (game_rooms ex_final) ''ABCD'' = Some ex_final_room"
    by (simp add: ex_final_def)
  have h2: "py_index (players ex_final_room) (current_drawer_index ex_final_room)
              = Some \<lparr>sid = ''a'', username = ''Alice'', score = 100, is_host = True\<rparr>"
    by (simp add: ex_final_room_def py_index_def)
  have h3: "''cat'' = random_choice (env_at 1000) ''ABCD'' WORD_BANK"
    by (simp add: random_choice_def env_at_def WORD_BANK_def)
  show ?thesis
    using new_round_word_and_mask [OF h1 h2 h3]
    by (auto simp: ex_final_def ex_final_room_def)
qed

section \<open>Joining a room\<close>

text \<open>
  C6: a join of the room named by the (upper-cased) code succeeds if and only if that
  room exists, its roster is shorter than its \<open>max_players\<close> and its game has not
  started.  A join that succeeds appends the new player, with \<open>is_host = False\<close> and
  \<open>score = 0\<close>, at the end of the roster and changes nothing else in any room; a join
  that fails changes no room at all: its only effect is one \<open>error\<close> event sent to the
  caller.
\<close>

theorem join_room_iff_space_and_lobby:
  "(\<exists>r. map_of (game_rooms st) (py_upper rc) = Some r
        \<and> int (length (players r)) < max_players r \<and> \<not> game_started r
        \<and> join_room csid rc un st =
            st\<lparr>game_rooms := AList.update (py_upper rc)
                      (r\<lparr>players := players r @
                           [\<lparr>sid = csid, username = un, score = 0, is_host = False\<rparr>]\<rparr>)
                      (game_rooms st),
                 outbox := outbox st @
                   [Enter_room csid (py_upper rc),
                    Emit (Room_joined (py_upper rc) (players r @
                           [\<lparr>sid = csid, username = un, score = 0, is_host = False\<rparr>]))
                      (To csid),
                    Emit (Player_joined (players r @
                           [\<lparr>sid = csid, username = un, score = 0, is_host = False\<rparr>]))
                      (Room (py_upper rc))]\<rparr>)
   \<or> (\<not> (\<exists>r. map_of (game_rooms st) (py_upper rc) = Some r
             \<and> int (length (players r)) < max_players r \<and> \<not> game_started r)
      \<and> join_room csid rc un st =
            st\<lparr>outbox := outbox st @
              [Emit (Error_msg
                 (case map_of (game_rooms st) (py_upper rc) of
                    None \<Rightarrow> ''Room not found''
                  | Some r \<Rightarrow> if max_players r \<le> int (length (players r))
                             then ''Room is full'' else ''Game already started''))
                 (To csid)]\<rparr>)"
proof (cases "map_of (game_rooms st) (py_upper rc)")
  case None
  then show ?thesis by (simp add: join_room_def emit_def)
next
  case (Some r)
  show ?thesis
  proof (cases "int (length (players r)) < max_players r \<and> \<not> game_started r")
    case True
    with Some show ?thesis
      by (simp add: join_room_def Let_def emit_def set_room_def)
  next
    case False
    with Some show ?thesis
      by (auto simp: join_room_def emit_def)
  qed
qed

theorem join_room_iff_space_and_lobby_witness:
  "join_room ''b'' ''abcd'' ''Bob'' ex_created =
     ex_created\<lparr>game_rooms :=
         [(''ABCD'', ex_created_room\<lparr>players :=
             [\<lparr>sid = ''a'', username = ''Alice'', score = 0, is_host = True\<rparr>,
              \<lparr>sid = ''b'', username = ''Bob'', score = 0, is_host = False\<rparr>]\<rparr>)],
       outbox := outbox ex_created @
         [Enter_room ''b'' ''ABCD'',
          Emit (Room_joined ''ABCD''
                 [\<lparr>sid = ''a'', username = ''Alice'', score = 0, is_host = True\<rparr>,
                  \<lparr>sid = ''b'', username = ''Bob'', score = 0, is_host = False\<rparr>]) (To ''b''),
          Emit (Player_joined
                 [\<lparr>sid = ''a'', username = ''Alice'', score = 0, is_host = True\<rparr>,
                  \<lparr>sid = ''b'', username = ''Bob'', score = 0, is_host = False\<rparr>])
            (Room ''ABCD'')]\<rparr>
   \<and> join_room ''c'' ''abcd'' ''Carol'' ex_playing =
       ex_playing\<lparr>outbox := outbox ex_playing @
          [Emit (Error_msg ''Game already started'') (To ''c'')]\<rparr>"
proof -
  have up: "py_upper ''abcd'' = ''ABCD''" by code_simp
  have rooms: "game_rooms ex_created = [(''ABCD'', ex_created_room)]" by code_simp
  have ok: "int (length (players ex_created_room)) < max_players ex_created_room
              \<and> \<not> game_started ex_created_room"
    by (simp add: ex_created_room_def)
  have started: "game_started ex_room \<and> \<not> max_players ex_room \<le> int (length (players ex_room))"
    by (simp add: ex_room_def)
  have one: "join_room ''b'' ''abcd'' ''Bob'' ex_created =
      ex_created\<lparr>game_rooms := AList.update ''ABCD''
          (ex_created_room\<lparr>players := players ex_created_room @
             [\<lparr>sid = ''b'', username = ''Bob'', score = 0, is_host = False\<rparr>]\<rparr>)
          (game_rooms ex_created),
        outbox := outbox ex_created @
         [Enter_room ''b'' ''ABCD'',
          Emit (Room_joined ''ABCD'' (players ex_created_room @
                 [\<lparr>sid = ''b'', username = ''Bob'', score = 0, is_host = False\<rparr>])) (To ''b''),
          Emit (Player_joined (players ex_created_room @
                 [\<lparr>sid = ''b'', username = ''Bob'', score = 0, is_host = False\<rparr>]))
            (Room ''ABCD'')]\<rparr>"
    using join_room_iff_space_and_lobby [of ex_created "''abcd''" "''b''" "''Bob''"]
      ex_created_room ok
    by (auto simp: up)
  have two: "join_room ''c'' ''abcd'' ''Carol'' ex_playing =
       ex_playing\<lparr>outbox := outbox ex_playing @
          [Emit (Error_msg ''Game already started'') (To ''c'')]\<rparr>"
    using join_room_iff_space_and_lobby [of ex_playing "''abcd''" "''c''" "''Carol''"]
      ex_playing_room started
    by (auto simp: up)
  show ?thesis
    using one two by (simp add: rooms ex_created_room_def)
qed

section \<open>Chat messages\<close>

text \<open>
  C10: when the named room exists and the sender's sid is on the roster of some room,
  whichever it is, \<open>send_message\<close> emits \<open>chat_message\<close> to the named room; the
  username it carries is that of the first player with this sid in the rosters of all
  rooms, taken in the order of \<open>game_rooms\<close>.  Nothing else changes.
\<close>

theorem send_message_any_room:
  assumes "map_of (game_rooms st) (py_upper rc) = Some r"
    and "(c, r') \<in> set (game_rooms st)"
    and "p \<in> set (players r')"
    and "sid p = csid"
  shows "\<exists>pl. find (\<lambda>p. sid p = csid) (concat (map (\<lambda>kv. players (snd kv)) (game_rooms st)))
                = Some pl
            \<and> send_message csid rc message st =
                st\<lparr>outbox := outbox st @
                     [Emit (Chat_message (username pl) message) (Room (py_upper rc))]\<rparr>"
proof -
  have "p \<in> set (concat (map (\<lambda>kv. players (snd kv)) (game_rooms st)))"
    using assms(2,3) by force
  with assms(4) obtain pl where
    "find (\<lambda>p. sid p = csid) (concat (map (\<lambda>kv. players (snd kv)) (game_rooms st))) = Some pl"
    by (cases "find (\<lambda>p. sid p = csid) (concat (map (\<lambda>kv. players (snd kv)) (game_rooms st)))")
       (auto simp: find_None_iff)
  with assms(1) show ?thesis
    by (simp add: send_message_def emit_def)
qed

theorem send_message_any_room_witness:
  "''a'' \<notin> sid ` set (players (snd (game_rooms ex_two_rooms ! 1)))
   \<and> fst (game_rooms ex_two_rooms ! 1) = ''TWO''
   \<and> send_message ''a'' ''two'' ''hi'' ex_two_rooms =
       ex_two_rooms\<lparr>outbox := outbox ex_two_rooms @
          [Emit (Chat_message ''Alice'' ''hi'') (Room ''TWO'')]\<rparr>"
proof -
  have up: "py_upper ''two'' = ''TWO''" by code_simp
  have rooms: "game_rooms ex_two_rooms =
      [(''ABCD'', ex_created_room),
       (''TWO'', ex_created_room\<lparr>room_code := ''TWO'',
           players := [\<lparr>sid = ''b'', username = ''Bob'', score = 0, is_host = True\<rparr>]\<rparr>)]"
    by code_simp
  have h1: "map_of (game_rooms ex_two_rooms) (py_upper ''two'') =
      Some (ex_created_room\<lparr>room_code := ''TWO'',
           players := [\<lparr>sid = ''b'', username = ''Bob'', score = 0, is_host = True\<rparr>]\<rparr>)"
    by (simp add: rooms up)
  have h2: "(''ABCD'', ex_created_room) \<in> set (game_rooms ex_two_rooms)"
    by (simp add: rooms)
  have h3: "\<lparr>sid = ''a'', username = ''Alice'', score = 0, is_host = True\<rparr>
              \<in> set (players ex_created_room)"
    by (simp add: ex_created_room_def)
  have h4: "sid \<lparr>sid = ''a'', username = ''Alice'', score = 0, is_host = True\<rparr> = ''a''"
    by simp
  show ?thesis
    using send_message_any_room [OF h1 h2 h3 h4, of "''hi''"]
    by (auto simp: rooms up ex_created_room_def)
qed

section \<open>Judging a guess\<close>

lemma WORD_BANK_trimmed_all: "list_all (\<lambda>w. py_strip (py_lower w) = py_lower w) WORD_BANK"
  by code_simp

lemma WORD_BANK_trimmed: "w \<in> set WORD_BANK \<Longrightarrow> py_strip (py_lower w) = py_lower w"
  using WORD_BANK_trimmed_all by (simp add: list_all_iff)

lemma lower_char_space: "py_isspace c \<Longrightarrow> lower_char c = c"
  by (auto simp: py_isspace_def lower_char_def Let_def)

lemma py_lower_spaces: "\<forall>c\<in>set s. py_isspace c \<Longrightarrow> py_lower s = s"
  by (simp add: py_lower_def lower_char_space map_idI)

lemma py_strip_padded:
  assumes "\<forall>c\<in>set pre. py_isspace c" and "\<forall>c\<in>set post. py_isspace c"
  shows "py_strip (pre @ x @ post) = py_strip x"
proof -
  have front: "dropWhile py_isspace (pre @ x @ post) = dropWhile py_isspace (x @ post)"
    using assms(1) by (simp add: dropWhile_append2)
  show ?thesis
  proof (cases "\<forall>c\<in>set x. py_isspace c")
    case True
    have a: "dropWhile py_isspace (pre @ x @ post) = []"
      using assms True by (simp add: dropWhile_eq_Nil_conv ball_Un)
    have b: "dropWhile py_isspace x = []"
      using True by (simp add: dropWhile_eq_Nil_conv)
    show ?thesis by (simp only: py_strip_def a b)
  next
    case False
    then obtain c where "c \<in> set x" "\<not> py_isspace c" by blast
    then have mid: "dropWhile py_isspace (x @ post) = dropWhile py_isspace x @ post"
      by (simp add: dropWhile_append1)
    have "dropWhile py_isspace (rev post @ rev (dropWhile py_isspace x))
            = dropWhile py_isspace (rev (dropWhile py_isspace x))"
      by (rule dropWhile_append2) (use assms(2) in auto)
    with front mid show ?thesis by (simp add: py_strip_def)
  qed
qed

text \<open>
  C9: for a player who may guess (on the roster, not the drawer, not yet among the
  guessers) and a secret \<open>w\<close> of the word bank, \<open>send_guess\<close> judges the guess
  correct (it answers with \<open>correct_guess\<close> and \<open>guess_result\<close> \<open>correct: True\<close>) if
  \<open>normalize(guess) = normalize(secret)\<close> and incorrect (it relays the normalized
  guess as chat and answers \<open>correct: False\<close>) otherwise, where
  \<open>normalize(text) = trim(lowercase(text))\<close>.  In particular a guess that differs from
  the secret only in letter case and in whitespace around it matches.
\<close>

theorem guess_judged_by_normalized_match:
  assumes "map_of (game_rooms st) (py_upper rc) = Some r"
    and "current_drawer_sid r \<noteq> Some csid"
    and "csid \<notin> set (guessed_players r)"
    and "find (\<lambda>p. sid p = csid) (players r) = Some pl"
    and "current_word r = Some w"
    and "w \<in> set WORD_BANK"
    and "round_start_time r = Some t0"
  shows "(spec_matches g w \<longrightarrow>
            (\<exists>rest. outbox (state_of (send_guess e csid rc g st)) =
               outbox st @ [Emit (Correct_guess (username pl) (points (timestamp e - t0)))
                              (Room (py_upper rc)),
                            Emit (Guess_result True (Some (points (timestamp e - t0))))
                              (To csid)] @ rest))
       \<and> (\<not> spec_matches g w \<longrightarrow>
            send_guess e csid rc g st =
              Done (st\<lparr>outbox := outbox st @
                      [Emit (Chat_message (username pl) (spec_normalize g)) (Room (py_upper rc)),
                       Emit (Guess_result False None) (To csid)]\<rparr>))
       \<and> (\<forall>pre core post.
            (\<forall>c\<in>set pre. py_isspace c) \<and> (\<forall>c\<in>set post. py_isspace c)
              \<and> py_lower core = py_lower w \<and> g = pre @ core @ post
            \<longrightarrow> spec_matches g w)"
proof -
  have trimmed: "py_strip (py_lower w) = py_lower w"
    using assms(6) by (rule WORD_BANK_trimmed)
  then have iff: "spec_matches g w \<longleftrightarrow> py_strip (py_lower g) = py_lower w"
    by (simp add: spec_matches_def spec_normalize_def)
  have hit: "spec_matches g w \<longrightarrow>
            (\<exists>rest. outbox (state_of (send_guess e csid rc g st)) =
               outbox st @ [Emit (Correct_guess (username pl) (points (timestamp e - t0)))
                              (Room (py_upper rc)),
                            Emit (Guess_result True (Some (points (timestamp e - t0))))
                              (To csid)] @ rest)"
    using send_guess_correct_outbox [OF assms(1-5) _ assms(7), of g e] iff by blast
  have miss: "\<not> spec_matches g w \<longrightarrow>
            send_guess e csid rc g st =
              Done (st\<lparr>outbox := outbox st @
                      [Emit (Chat_message (username pl) (spec_normalize g)) (Room (py_upper rc)),
                       Emit (Guess_result False None) (To csid)]\<rparr>)"
    using send_guess_miss [OF assms(1-5), of g e] iff by (simp add: spec_normalize_def)
  have pad: "spec_matches g w"
    if "\<forall>c\<in>set pre. py_isspace c" "\<forall>c\<in>set post. py_isspace c"
       "py_lower core = py_lower w" "g = pre @ core @ post" for pre core post
  proof -
    have "py_lower g = pre @ py_lower w @ post"
      using that py_lower_spaces [of pre] py_lower_spaces [of post]
      by (simp add: py_lower_def)
    then have "py_strip (py_lower g) = py_strip (py_lower w)"
      using that(1,2) by (simp add: py_strip_padded)
    then show ?thesis by (simp add: spec_matches_def spec_normalize_def)
  qed
  from hit miss pad show ?thesis by blast
qed

theorem guess_judged_by_normalized_match_witness:
  "spec_matches ''  CAT '' ''cat''
   \<and> (\<exists>rest. outbox (state_of (send_guess (env_at 1010) ''b'' ''abcd'' ''  CAT '' ex_playing)) =
        outbox ex_playing @ [Emit (Correct_guess ''Bob'' 180) (Room ''ABCD''),
                             Emit (Guess_result True (Some 180)) (To ''b'')] @ rest)
   \<and> \<not> spec_matches ''c at'' ''cat''
   \<and> send_guess (env_at 1010) ''b'' ''abcd'' ''c at'' ex_playing =
       Done (ex_playing\<lparr>outbox := outbox ex_playing @
              [Emit (Chat_message ''Bob'' ''c at'') (Room ''ABCD''),
               Emit (Guess_result False None) (To ''b'')]\<rparr>)"
proof -
  have up: "py_upper ''abcd'' = ''ABCD''" by code_simp
  have h1: "map_of (game_rooms ex_playing) (py_upper ''abcd'') = Some ex_room"
    unfolding up by (rule ex_playing_room)
  have h2: "current_drawer_sid ex_room \<noteq> Some ''b''" by (simp add: ex_room_def)
  have h3: "''b'' \<notin> set (guessed_players ex_room)" by (simp add: ex_room_def)
  have h4: "find (\<lambda>p. sid p = ''b'') (players ex_room)
              = Some \<lparr>sid = ''b'', username = ''Bob'', score = 0, is_host = False\<rparr>"
    by (simp add: ex_room_def)
  have h5: "current_word ex_room = Some ''cat''" by (simp add: ex_room_def)
  have h6: "''cat'' \<in> set WORD_BANK" by (simp add: WORD_BANK_def)
  have h7: "round_start_time ex_room = Some 1000" by (simp add: ex_room_def)
  have sp: "py_isspace CHR '' ''" by code_simp
  have lo: "py_lower ''CAT'' = py_lower ''cat''" by code_simp
  have pad: "(\<forall>c\<in>set ''  ''. py_isspace c) \<and> (\<forall>c\<in>set '' ''. py_isspace c)
               \<and> py_lower ''CAT'' = py_lower ''cat'' \<and> ''  CAT '' = ''  '' @ ''CAT'' @ '' ''"
    using sp lo by simp
  have m1: "spec_matches ''  CAT '' ''cat''"
    using guess_judged_by_normalized_match [OF h1 h2 h3 h4 h5 h6 h7, of "''  CAT ''"] pad
    by blast
  have m2: "\<not> spec_matches ''c at'' ''cat''" by code_simp
  have n: "spec_normalize ''c at'' = ''c at''" by code_simp
  have p: "points (timestamp (env_at 1010) - 1000) = 180"
    by (simp add: points_def py_int_def env_at_def)
  show ?thesis
    using guess_judged_by_normalized_match [OF h1 h2 h3 h4 h5 h6 h7, of "''  CAT ''" "env_at 1010"]
      guess_judged_by_normalized_match [OF h1 h2 h3 h4 h5 h6 h7, of "''c at''" "env_at 1010"]
      m1 m2 n p up
    by simp
qed

section \<open>The round timer\<close>

lemma tasks_end_game [simp]: "tasks (end_game code st) = tasks st"
  by (simp add: end_game_def Let_def split: option.split)

lemma tasks_end_round: "\<exists>new. tasks (state_of (end_round code st)) = tasks st @ new"
  by (simp add: end_round_def Let_def split: option.split)

lemma ex_guessed_room:
  "map_of (game_rooms ex_guessed) ''ABCD'' =
     Some (ex_room\<lparr>players := [\<lparr>sid = ''a'', username = ''Alice'', score = 50, is_host = True\<rparr>,
                               \<lparr>sid = ''b'', username = ''Bob'', score = 186, is_host = False\<rparr>],
                   guessed_players := [''b''], current_drawer_index := 1\<rparr>)"
  by code_simp

text \<open>
  C1, as the claim states it, fails: no round generation exists, and a timer that fires
  after its round has ended is not a no-op.  Bob, the only guesser, finds the word at
  1057; the round ends at once, Alice has 50 points and Bob 186, and the pause before
  the next round begins.  The timer of that same round is still pending; it fires (at
  1060, within the pause) and ends the round once more: \<open>round_end\<close> goes out again
  and the awards are given a second time.
\<close>

theorem stale_timer_ends_round_twice:
  "tasks ex_guessed = [Round_timer ''ABCD'' 60, End_round_sleep ''ABCD'']
   \<and> scores_in ''ABCD'' ex_guessed = [50, 186]
   \<and> scores_in ''ABCD'' (state_of (round_timer ''ABCD'' 60 ex_guessed)) = [100, 286]
   \<and> outbox (state_of (round_timer ''ABCD'' 60 ex_guessed)) = outbox ex_guessed @
        [Emit (Round_end (Some ''cat'')
           [\<lparr>sid = ''a'', username = ''Alice'', score = 100, is_host = True\<rparr>,
            \<lparr>sid = ''b'', username = ''Bob'', score = 286, is_host = False\<rparr>]) (Room ''ABCD'')]"
  by code_simp

text \<open>
  C1, amended: a round-deadline timer carries the room code only.  When it fires it is
  a silent no-op exactly when the room no longer exists; when the room exists it runs
  \<open>end_round\<close>, whatever has happened to the round since it was scheduled, and
  \<open>round_end\<close> goes out.  No \<open>end_round\<close> withdraws a pending timer.  When a
  correct guess brings the number of guessers to \<open>len(players) - 1\<close>, the round ends
  immediately, within \<open>send_guess\<close>.
\<close>

theorem round_timer_checks_room_only:
  "(map_of (game_rooms st) code = None \<longrightarrow> round_timer code duration st = Done st)
   \<and> (\<forall>r. map_of (game_rooms st) code = Some r \<longrightarrow>
          round_timer code duration st = end_round code st
          \<and> (\<exists>rest. outbox (state_of (round_timer code duration st)) =
                outbox st @ Emit (Round_end (current_word r) (awarded r)) (Room code) # rest))
   \<and> (\<exists>new. tasks (state_of (end_round code st)) = tasks st @ new)
   \<and> (\<forall>e csid rc g r pl w t0.
          map_of (game_rooms st) (py_upper rc) = Some r
          \<and> current_drawer_sid r \<noteq> Some csid \<and> csid \<notin> set (guessed_players r)
          \<and> find (\<lambda>p. sid p = csid) (players r) = Some pl
          \<and> current_word r = Some w \<and> py_strip (py_lower g) = py_lower w
          \<and> round_start_time r = Some t0
          \<and> int (length (guessed_players r)) + 1 = int (length (players r)) - 1
          \<longrightarrow> send_guess e csid rc g st =
                end_round (py_upper rc)
                  (emit (Guess_result True (Some (points (timestamp e - t0)))) (To csid)
                     (emit (Correct_guess (username pl) (points (timestamp e - t0)))
                        (Room (py_upper rc))
                        (set_room (py_upper rc)
                           (r\<lparr>guessed_players := guessed_players r @ [csid],
                              players := add_score csid (points (timestamp e - t0))
                                           (players r)\<rparr>) st))))"
proof -
  have absent: "map_of (game_rooms st) code = None \<longrightarrow> round_timer code duration st = Done st"
    by (simp add: round_timer_def)
  have present: "round_timer code duration st = end_round code st
       \<and> (\<exists>rest. outbox (state_of (round_timer code duration st)) =
             outbox st @ Emit (Round_end (current_word r) (awarded r)) (Room code) # rest)"
    if "map_of (game_rooms st) code = Some r" for r
    using that outbox_end_round [of code st] by (simp add: round_timer_def)
  have early: "send_guess e csid rc g st =
                end_round (py_upper rc)
                  (emit (Guess_result True (Some (points (timestamp e - t0)))) (To csid)
                     (emit (Correct_guess (username pl) (points (timestamp e - t0)))
                        (Room (py_upper rc))
                        (set_room (py_upper rc)
                           (r\<lparr>guessed_players := guessed_players r @ [csid],
                              players := add_score csid (points (timestamp e - t0))
                                           (players r)\<rparr>) st)))"
    if "map_of (game_rooms st) (py_upper rc) = Some r"
      "current_drawer_sid r \<noteq> Some csid" "csid \<notin> set (guessed_players r)"
      "find (\<lambda>p. sid p = csid) (players r) = Some pl"
      "current_word r = Some w" "py_strip (py_lower g) = py_lower w"
      "round_start_time r = Some t0"
      "int (length (guessed_players r)) + 1 = int (length (players r)) - 1"
    for e csid rc g r pl w t0
    using send_guess_hit [OF that(1-7), of e] that(8) by (simp add: Let_def)
  from absent present tasks_end_round [of code st] early show ?thesis by blast
qed

theorem round_timer_checks_room_only_witness:
  "round_timer ''ABCD'' 60 ex_guessed = end_round ''ABCD'' ex_guessed
   \<and> (\<exists>rest. outbox (state_of (round_timer ''ABCD'' 60 ex_guessed)) =
        outbox ex_guessed @
        Emit (Round_end (Some ''cat'')
           [\<lparr>sid = ''a'', username = ''Alice'', score = 100, is_host = True\<rparr>,
            \<lparr>sid = ''b'', username = ''Bob'', score = 286, is_host = False\<rparr>]) (Room ''ABCD'')
        # rest)
   \<and> round_timer ''GONE'' 60 ex_guessed = Done ex_guessed
   \<and> send_guess (env_at 1057) ''b'' ''abcd'' ''cat'' ex_playing =
       end_round ''ABCD''
         (emit (Guess_result True (Some 86)) (To ''b'')
            (emit (Correct_guess ''Bob'' 86) (Room ''ABCD'')
               (set_room ''ABCD''
                  (ex_room\<lparr>guessed_players := [''b''],
                     players := [\<lparr>sid = ''a'', username = ''Alice'', score = 0, is_host = True\<rparr>,
                                 \<lparr>sid = ''b'', username = ''Bob'', score = 86, is_host = False\<rparr>]\<rparr>)
                  ex_playing)))"
proof -
  let ?R = "ex_room\<lparr>players :=
                 [\<lparr>sid = ''a'', username = ''Alice'', score = 50, is_host = True\<rparr>,
                  \<lparr>sid = ''b'', username = ''Bob'', score = 186, is_host = False\<rparr>],
               guessed_players := [''b''], current_drawer_index := 1\<rparr>"
  let ?bob = "\<lparr>sid = ''b'', username = ''Bob'', score = 0, is_host = False\<rparr>"
  have gone: "map_of (game_rooms ex_guessed) ''GONE'' = None" by code_simp
  have aw: "awarded ?R =
            [\<lparr>sid = ''a'', username = ''Alice'', score = 100, is_host = True\<rparr>,
             \<lparr>sid = ''b'', username = ''Bob'', score = 286, is_host = False\<rparr>]"
    by (simp add: awarded_def ex_room_def)
  have cw: "current_word ?R = Some ''cat''" by (simp add: ex_room_def)
  have up: "py_upper ''abcd'' = ''ABCD''" by code_simp
  have trimmed: "py_strip (py_lower ''cat'') = py_lower ''cat''" by code_simp
  have pts: "points (timestamp (env_at 1057) - 1000) = 86"
    by (simp add: points_def py_int_def env_at_def)
  have last:
    "map_of (game_rooms ex_playing) (py_upper ''abcd'') = Some ex_room
     \<and> current_drawer_sid ex_room \<noteq> Some ''b'' \<and> ''b'' \<notin> set (guessed_players ex_room)
     \<and> find (\<lambda>p. sid p = ''b'') (players ex_room) = Some ?bob
     \<and> current_word ex_room = Some ''cat'' \<and> py_strip (py_lower ''cat'') = py_lower ''cat''
     \<and> round_start_time ex_room = Some 1000
     \<and> int (length (guessed_players ex_room)) + 1 = int (length (players ex_room)) - 1"
    using ex_playing_room trimmed by (simp add: up ex_room_def)
  have "round_timer ''ABCD'' 60 ex_guessed = end_round ''ABCD'' ex_guessed
     \<and> (\<exists>rest. outbox (state_of (round_timer ''ABCD'' 60 ex_guessed)) =
           outbox ex_guessed @
           Emit (Round_end (current_word ?R) (awarded ?R)) (Room ''ABCD'') # rest)"
    using round_timer_checks_room_only [of ex_guessed "''ABCD''" 60] ex_guessed_room
    by blast
  moreover have "round_timer ''GONE'' 60 ex_guessed = Done ex_guessed"
    using round_timer_checks_room_only [of ex_guessed "''GONE''" 60] gone
    by blast
  moreover have "send_guess (env_at 1057) ''b'' ''abcd'' ''cat'' ex_playing =
       end_round (py_upper ''abcd'')
         (emit (Guess_result True (Some (points (timestamp (env_at 1057) - 1000)))) (To ''b'')
            (emit (Correct_guess (username ?bob) (points (timestamp (env_at 1057) - 1000)))
               (Room (py_upper ''abcd''))
               (set_room (py_upper ''abcd'')
                  (ex_room\<lparr>guessed_players := guessed_players ex_room @ [''b''],
                     players := add_score ''b'' (points (timestamp (env_at 1057) - 1000))
                                  (players ex_room)\<rparr>)
                  ex_playing)))"
    using round_timer_checks_room_only [of ex_playing "''ABCD''" 60] last
    by blast
  ultimately show ?thesis
    unfolding aw cw pts up by (auto simp: ex_room_def)
qed

section \<open>Starting the game\<close>

lemma map_of_set_room [simp]: "map_of (game_rooms (set_room code r st)) code = Some r"
  by (simp add: set_room_def AList.update_conv')

text \<open>
  C5, as the claim states it, fails: \<open>start_game\<close> does not ask whether the game has
  started.  In the running game of Alice and Bob, Alice's second \<open>start_game\<close>
  succeeds: \<open>game_started\<close> goes out again, the round is started anew and a second
  deadline timer is pending.
\<close>

theorem start_game_while_playing:
  "map_of (game_rooms ex_playing) ''ABCD'' = Some ex_room
   \<and> game_started ex_room
   \<and> start_game (env_at 1010) ''a'' ''abcd'' ex_playing =
       Done (ex_playing\<lparr>
         game_rooms := [(''ABCD'', ex_room\<lparr>round_start_time := Some 1010\<rparr>)],
         outbox := outbox ex_playing @
           [Emit Game_started (Room ''ABCD''),
            Emit (New_round 1 ''Alice'' ''a'' ''cat'' 3) (To ''a''),
            Emit (New_round 1 ''Alice'' ''a'' ''___'' 3) (To ''b'')],
         tasks := [Round_timer ''ABCD'' 60, Round_timer ''ABCD'' 60]\<rparr>)"
  by code_simp

text \<open>
  C5, amended: \<open>start_game\<close> succeeds if and only if the named room exists, the
  caller is on its roster as a host and the roster has at least two players, whether
  the game has started or not.  On success it sets \<open>game_started = True\<close> and
  \<open>current_round = 1\<close>, emits \<open>game_started\<close> to the room and runs
  \<open>start_new_round\<close>, which starts the round of the player at
  \<open>current_drawer_index\<close>.  On failure no room and no task changes, and the only
  event is an \<open>error\<close> sent to the caller.
\<close>

theorem start_game_host_and_two:
  "(\<exists>r. map_of (game_rooms st) (py_upper rc) = Some r
        \<and> (\<exists>p\<in>set (players r). sid p = csid \<and> is_host p) \<and> 2 \<le> length (players r)
        \<and> start_game e csid rc st =
            start_new_round e (py_upper rc)
              (emit Game_started (Room (py_upper rc))
                 (set_room (py_upper rc) (r\<lparr>game_started := True, current_round := 1\<rparr>) st))
        \<and> (\<forall>d. py_index (players r) (current_drawer_index r) = Some d \<longrightarrow>
              start_game e csid rc st =
                Done (st\<lparr>game_rooms := AList.update (py_upper rc)
                            (round_room e (py_upper rc)
                               (r\<lparr>game_started := True, current_round := 1\<rparr>) d)
                            (game_rooms st),
                         outbox := outbox st @ Emit Game_started (Room (py_upper rc))
                            # round_events (r\<lparr>game_started := True, current_round := 1\<rparr>) d
                                (random_choice e (py_upper rc) WORD_BANK),
                         tasks := tasks st @ [Round_timer (py_upper rc) 60]\<rparr>)))
   \<or> (\<not> (\<exists>r. map_of (game_rooms st) (py_upper rc) = Some r
             \<and> (\<exists>p\<in>set (players r). sid p = csid \<and> is_host p) \<and> 2 \<le> length (players r))
      \<and> start_game e csid rc st =
            Done (st\<lparr>outbox := outbox st @
              [Emit (Error_msg
                 (case map_of (game_rooms st) (py_upper rc) of
                    None \<Rightarrow> ''Room not found''
                  | Some r \<Rightarrow> if \<not> (\<exists>p\<in>set (players r). sid p = csid \<and> is_host p)
                             then ''Only host can start game''
                             else ''Need at least 2 players''))
                 (To csid)]\<rparr>))"
proof (cases "map_of (game_rooms st) (py_upper rc)")
  case None
  then show ?thesis by (simp add: start_game_def emit_def)
next
  case (Some r)
  show ?thesis
  proof (cases "(\<exists>p\<in>set (players r). sid p = csid \<and> is_host p) \<and> 2 \<le> length (players r)")
    case False
    have neg: "\<not> (\<exists>r. map_of (game_rooms st) (py_upper rc) = Some r
             \<and> (\<exists>p\<in>set (players r). sid p = csid \<and> is_host p) \<and> 2 \<le> length (players r))"
      using Some False by simp
    have val: "start_game e csid rc st =
        Done (st\<lparr>outbox := outbox st @
           [Emit (Error_msg (if \<not> (\<exists>p\<in>set (players r). sid p = csid \<and> is_host p)
                             then ''Only host can start game''
                             else ''Need at least 2 players'')) (To csid)]\<rparr>)"
    proof (cases "\<exists>p\<in>set (players r). sid p = csid \<and> is_host p")
      case host: True
      with False have "length (players r) < 2" by simp
      with host Some show ?thesis
        by (simp add: start_game_def emit_def list_ex_iff Let_def)
    next
      case nohost: False
      with Some show ?thesis
        by (simp add: start_game_def emit_def list_ex_iff Let_def)
    qed
    show ?thesis
      by (rule disjI2, rule conjI, rule neg) (simp add: val Some)
  next
    case True
    let ?r1 = "r\<lparr>game_started := True, current_round := 1\<rparr>"
    let ?st1 = "emit Game_started (Room (py_upper rc)) (set_room (py_upper rc) ?r1 st)"
    have sg: "start_game e csid rc st = start_new_round e (py_upper rc) ?st1"
      using Some True by (auto simp: start_game_def Let_def list_ex_iff)
    have "start_game e csid rc st =
                Done (st\<lparr>game_rooms := AList.update (py_upper rc)
                            (round_room e (py_upper rc) ?r1 d) (game_rooms st),
                         outbox := outbox st @ Emit Game_started (Room (py_upper rc))
                            # round_events ?r1 d (random_choice e (py_upper rc) WORD_BANK),
                         tasks := tasks st @ [Round_timer (py_upper rc) 60]\<rparr>)"
      if "py_index (players r) (current_drawer_index r) = Some d" for d
    proof -
      have "map_of (game_rooms ?st1) (py_upper rc) = Some ?r1"
        by (simp add: AList.update_conv')
      moreover have "py_index (players ?r1) (current_drawer_index ?r1) = Some d"
        using that by simp
      ultimately show ?thesis
        unfolding sg by (simp add: start_new_round_Some emit_def set_room_def)
    qed
    with Some True sg show ?thesis by simp
  qed
qed

theorem start_game_host_and_two_witness:
  "start_game (env_at 1000) ''a'' ''abcd'' ex_lobby =
     Done (ex_lobby\<lparr>game_rooms := [(''ABCD'', ex_room)],
        outbox := outbox ex_lobby @
           [Emit Game_started (Room ''ABCD''),
            Emit (New_round 1 ''Alice'' ''a'' ''cat'' 3) (To ''a''),
            Emit (New_round 1 ''Alice'' ''a'' ''___'' 3) (To ''b'')],
        tasks := [Round_timer ''ABCD'' 60]\<rparr>)
   \<and> start_game (env_at 1000) ''b'' ''abcd'' ex_lobby =
       Done (ex_lobby\<lparr>outbox := outbox ex_lobby @
          [Emit (Error_msg ''Only host can start game'') (To ''b'')]\<rparr>)"
proof -
  let ?r = "ex_created_room\<lparr>players :=
             [\<lparr>sid = ''a'', username = ''Alice'', score = 0, is_host = True\<rparr>,
              \<lparr>sid = ''b'', username = ''Bob'', score = 0, is_host = False\<rparr>]\<rparr>"
  have up: "py_upper ''abcd'' = ''ABCD''" by code_simp
  have rooms: "game_rooms ex_lobby = [(''ABCD'', ?r)]" by code_simp
  have tk: "tasks ex_lobby = []" by code_simp
  have h: "map_of (game_rooms ex_lobby) (py_upper ''abcd'') = Some ?r"
    by (simp add: rooms up)
  have host: "(\<exists>p\<in>set (players ?r). sid p = ''a'' \<and> is_host p) \<and> 2 \<le> length (players ?r)"
    by simp
  have nohost: "\<not> (\<exists>p\<in>set (players ?r). sid p = ''b'' \<and> is_host p)"
    by simp
  have idx: "py_index (players ?r) (current_drawer_index ?r)
               = Some \<lparr>sid = ''a'', username = ''Alice'', score = 0, is_host = True\<rparr>"
    by (simp add: py_index_def ex_created_room_def)
  have w: "random_choice (env_at 1000) ''ABCD'' WORD_BANK = ''cat''"
    by (simp add: random_choice_def env_at_def WORD_BANK_def)
  have one: "start_game (env_at 1000) ''a'' ''abcd'' ex_lobby =
       Done (ex_lobby\<lparr>game_rooms := AList.update (py_upper ''abcd'')
                            (round_room (env_at 1000) (py_upper ''abcd'')
                               (?r\<lparr>game_started := True, current_round := 1\<rparr>)
                               \<lparr>sid = ''a'', username = ''Alice'', score = 0, is_host = True\<rparr>)
                            (game_rooms ex_lobby),
                         outbox := outbox ex_lobby @ Emit Game_started (Room (py_upper ''abcd''))
                            # round_events (?r\<lparr>game_started := True, current_round := 1\<rparr>)
                                \<lparr>sid = ''a'', username = ''Alice'', score = 0, is_host = True\<rparr>
                                (random_choice (env_at 1000) (py_upper ''abcd'') WORD_BANK),
                         tasks := tasks ex_lobby @ [Round_timer (py_upper ''abcd'') 60]\<rparr>)"
    using start_game_host_and_two [of ex_lobby "''abcd''" "''a''" "env_at 1000"] h host idx
    by auto
  have two: "start_game (env_at 1000) ''b'' ''abcd'' ex_lobby =
       Done (ex_lobby\<lparr>outbox := outbox ex_lobby @
          [Emit (Error_msg ''Only host can start game'') (To ''b'')]\<rparr>)"
    using start_game_host_and_two [of ex_lobby "''abcd''" "''b''" "env_at 1000"] h nohost
    by auto
  have ts: "timestamp (env_at 1000) = 1000" by (simp add: env_at_def)
  show ?thesis
    unfolding two one up w
    by (simp add: rooms tk round_room_def round_events_def ex_room_def ex_created_room_def
        ts w)
qed

section \<open>A player disconnects\<close>

text \<open>
  A pass of \<open>disconnect\<close> emits no \<open>round_end\<close> and touches the room of its entry
  only; the loop goes on after the passes that have returned.
\<close>

lemma disconnect_room_outbox:
  "\<exists>evs. outbox (state_of (disconnect_room e csid entry s)) = outbox s @ evs
         \<and> (\<forall>ev\<in>set evs. \<not> is_round_end ev)"
proof -
  let ?c = "fst entry"
  let ?r1 = "(snd entry)\<lparr>players := filter (\<lambda>p. sid p \<noteq> csid) (players (snd entry))\<rparr>"
  let ?st2 = "emit (Player_left ?c (players ?r1)) (Room ?c) (set_room ?c ?r1 s)"
  obtain evs where evs: "outbox (state_of (start_new_round e ?c ?st2)) = outbox ?st2 @ evs"
      "\<forall>ev\<in>set evs. \<not> is_round_end ev"
    using start_new_round_outbox [of e ?c ?st2] by blast
  then have "outbox (state_of (start_new_round e ?c ?st2))
                = outbox s @ (Emit (Player_left ?c (players ?r1)) (Room ?c) # evs)
             \<and> (\<forall>ev\<in>set (Emit (Player_left ?c (players ?r1)) (Room ?c) # evs). \<not> is_round_end ev)"
    by simp
  then have a: "\<exists>evs. outbox (state_of (start_new_round e ?c ?st2)) = outbox s @ evs
         \<and> (\<forall>ev\<in>set evs. \<not> is_round_end ev)"
    by blast
  have b: "\<exists>evs. outbox ?st2 = outbox s @ evs \<and> (\<forall>ev\<in>set evs. \<not> is_round_end ev)"
    by simp
  have c: "\<exists>evs. outbox s = outbox s @ evs \<and> (\<forall>ev\<in>set evs. \<not> is_round_end ev)"
    by simp
  show ?thesis
    using a b c by (simp add: disconnect_room_def Let_def)
qed

lemma disconnect_room_other:
  assumes "k \<noteq> fst entry"
  shows "map_of (game_rooms (state_of (disconnect_room e csid entry s))) k = map_of (game_rooms s) k"
  using assms
  by (simp add: disconnect_room_def Let_def start_new_round_other AList.update_conv'
      AList.delete_conv')

lemma disconnect_loop_others:
  "code \<notin> fst ` set xs \<Longrightarrow>
     map_of (game_rooms (state_of (disconnect_loop e csid xs s))) code = map_of (game_rooms s) code
     \<and> (\<exists>evs. outbox (state_of (disconnect_loop e csid xs s)) = outbox s @ evs
            \<and> (\<forall>ev\<in>set evs. \<not> is_round_end ev))"
proof (induction xs arbitrary: s)
  case Nil
  show ?case by simp
next
  case (Cons entry xs)
  then have ne: "code \<noteq> fst entry" and rest: "code \<notin> fst ` set xs" by auto
  obtain evs1 where evs1:
      "outbox (state_of (disconnect_room e csid entry s)) = outbox s @ evs1"
      "\<forall>ev\<in>set evs1. \<not> is_round_end ev"
    using disconnect_room_outbox [of e csid entry s] by blast
  have keep1: "map_of (game_rooms (state_of (disconnect_room e csid entry s))) code
                 = map_of (game_rooms s) code"
    using ne by (rule disconnect_room_other)
  show ?case
  proof (cases "disconnect_room e csid entry s")
    case (Raised err s')
    with evs1 keep1 show ?thesis by auto
  next
    case (Done s')
    from Cons.IH [OF rest, of s'] obtain evs2 where
        "map_of (game_rooms (state_of (disconnect_loop e csid xs s'))) code
           = map_of (game_rooms s') code"
        "outbox (state_of (disconnect_loop e csid xs s')) = outbox s' @ evs2"
        "\<forall>ev\<in>set evs2. \<not> is_round_end ev"
      by blast
    with Done evs1 keep1 have
        "map_of (game_rooms (state_of (disconnect_loop e csid (entry # xs) s))) code
           = map_of (game_rooms s) code
         \<and> outbox (state_of (disconnect_loop e csid (entry # xs) s)) = outbox s @ (evs1 @ evs2)
         \<and> (\<forall>ev\<in>set (evs1 @ evs2). \<not> is_round_end ev)"
      by auto
    then show ?thesis by blast
  qed
qed


lemma disconnect_loop_append:
  "disconnect_loop e csid xs s = Done s' \<Longrightarrow>
     disconnect_loop e csid (xs @ ys) s = disconnect_loop e csid ys s'"
  by (induction xs arbitrary: s) (auto split: outcome.splits)

text \<open>
  C2, as the claim states it, fails: when the drawer leaves, the room does not perform
  \<open>end_round\<close>.  In the game of three Bob has found the word when Alice, who draws,
  leaves: after \<open>player_left\<close> the only events are the \<open>new_round\<close> of a round drawn
  by Bob.  No \<open>round_end\<close> goes out, Bob is not given the 100 points of a guesser, and
  \<open>current_drawer_index\<close> stays 0.
\<close>

theorem drawer_leaves_no_round_end:
  "game_rooms ex_three_playing = [(''ABCD'', ex_three_room)]
   \<and> disconnect (env_at 1058) ''a'' ex_three_playing =
     Done (ex_three_playing\<lparr>
         game_rooms := [(''ABCD'', ex_three_room\<lparr>
            players := [\<lparr>sid = ''b'', username = ''Bob'', score = 86, is_host = False\<rparr>,
                        \<lparr>sid = ''c'', username = ''Carol'', score = 0, is_host = False\<rparr>],
            current_drawer_sid := Some ''b'', guessed_players := [],
            round_start_time := Some 1058\<rparr>)],
         outbox := outbox ex_three_playing @
           [Emit (Player_left ''ABCD''
                    [\<lparr>sid = ''b'', username = ''Bob'', score = 86, is_host = False\<rparr>,
                     \<lparr>sid = ''c'', username = ''Carol'', score = 0, is_host = False\<rparr>])
              (Room ''ABCD''),
            Emit (New_round 1 ''Bob'' ''b'' ''cat'' 3) (To ''b''),
            Emit (New_round 1 ''Bob'' ''b'' ''___'' 3) (To ''c'')],
         tasks := tasks ex_three_playing @ [Round_timer ''ABCD'' 60]\<rparr>)"
  by code_simp

text \<open>
  C2, amended: when the active drawer of a started room disconnects, at least one
  other player remains on its roster and the loop of \<open>disconnect\<close> over the rooms
  reaches the room (no pass over an earlier room has raised), the room loses the
  player, emits \<open>player_left\<close> with the remaining roster and then runs
  \<open>start_new_round\<close> directly, not \<open>end_round\<close>: by the end of the handler the
  roster of the room is the remaining one with its scores as they were,
  \<open>current_drawer_index\<close> and \<open>current_round\<close> have their old values, and the handler
  has emitted no \<open>round_end\<close> at all.  When the index lies within the remaining
  roster, the player now at the index draws the new round (new word, no guessers, a
  new deadline timer).
\<close>

theorem drawer_disconnect_starts_round:
  assumes "distinct (map fst (game_rooms st))"
    and "game_rooms st = before @ (code, r) # after"
    and "disconnect_loop e csid before st = Done s1"
    and "game_started r"
    and "current_drawer_sid r = Some csid"
    and "\<exists>p\<in>set (players r). sid p = csid"
    and "rest = filter (\<lambda>p. sid p \<noteq> csid) (players r)"
    and "rest \<noteq> []"
    and "st2 = emit (Player_left code rest) (Room code) (set_room code (r\<lparr>players := rest\<rparr>) s1)"
  shows "disconnect e csid st =
           (case start_new_round e code st2 of
              Raised err s \<Rightarrow> Raised err s
            | Done s2 \<Rightarrow> disconnect_loop e csid after s2)
       \<and> (\<exists>r' evs0 evs.
             map_of (game_rooms (state_of (disconnect e csid st))) code = Some r'
             \<and> players r' = rest
             \<and> current_drawer_index r' = current_drawer_index r
             \<and> current_round r' = current_round r
             \<and> outbox (state_of (disconnect e csid st)) =
                 outbox st @ evs0 @ Emit (Player_left code rest) (Room code) # evs
             \<and> (\<forall>ev\<in>set evs0. \<not> is_round_end ev) \<and> (\<forall>ev\<in>set evs. \<not> is_round_end ev))
       \<and> (\<forall>d. py_index rest (current_drawer_index r) = Some d \<longrightarrow>
             start_new_round e code st2 =
               Done (s1\<lparr>game_rooms :=
                          AList.update code (round_room e code (r\<lparr>players := rest\<rparr>) d)
                            (game_rooms s1),
                        outbox := outbox s1 @ Emit (Player_left code rest) (Room code)
                          # round_events (r\<lparr>players := rest\<rparr>) d
                              (random_choice e code WORD_BANK),
                        tasks := tasks s1 @ [Round_timer code 60]\<rparr>))"
proof -
  let ?r1 = "r\<lparr>players := rest\<rparr>"
  let ?out = "start_new_round e code st2"
  have look2: "map_of (game_rooms st2) code = Some ?r1"
    by (simp add: assms(9) AList.update_conv')
  obtain p where "p \<in> set (players r)" "\<not> sid p \<noteq> csid"
    using assms(6) by auto
  then have shorter: "length rest < length (players r)"
    unfolding assms(7) by (rule length_filter_less)
  have pass: "disconnect_room e csid (code, r) s1 = ?out"
    using assms(4,5,8) shorter
    by (simp add: disconnect_room_def Let_def assms(7) [symmetric] assms(9))
  have "disconnect e csid st = disconnect_loop e csid ((code, r) # after) s1"
    unfolding disconnect_def assms(2) using assms(3) by (rule disconnect_loop_append)
  then have run: "disconnect e csid st =
           (case ?out of Raised err s \<Rightarrow> Raised err s
            | Done s2 \<Rightarrow> disconnect_loop e csid after s2)"
    by (simp add: pass)
  obtain evs0 where evs0: "outbox s1 = outbox st @ evs0" "\<forall>ev\<in>set evs0. \<not> is_round_end ev"
  proof -
    have "\<exists>evs. outbox (state_of (disconnect_loop e csid before st)) = outbox st @ evs
            \<and> (\<forall>ev\<in>set evs. \<not> is_round_end ev)"
    proof -
      have "code \<notin> fst ` set before"
        using assms(1) unfolding assms(2) by auto
      then show ?thesis using disconnect_loop_others [of code before e csid st] by blast
    qed
    then show ?thesis using that assms(3) by auto
  qed
  obtain r' where r': "map_of (game_rooms (state_of ?out)) code = Some r'"
      "players r' = rest" "current_drawer_index r' = current_drawer_index r"
      "current_round r' = current_round r"
    using start_new_round_same [OF look2, of e] by auto
  obtain evs1 where evs1: "outbox (state_of ?out) = outbox st2 @ evs1"
      "\<forall>ev\<in>set evs1. \<not> is_round_end ev"
    using start_new_round_outbox [of e code st2] by blast
  have out2: "outbox st2 = outbox s1 @ [Emit (Player_left code rest) (Room code)]"
    by (simp add: assms(9))
  have fresh: "code \<notin> fst ` set after"
    using assms(1) unfolding assms(2) by auto
  have final: "\<exists>evs. map_of (game_rooms (state_of (disconnect e csid st))) code = Some r'
             \<and> outbox (state_of (disconnect e csid st)) =
                 outbox st @ evs0 @ Emit (Player_left code rest) (Room code) # evs
             \<and> (\<forall>ev\<in>set evs. \<not> is_round_end ev)"
  proof (cases ?out)
    case (Raised err s)
    with run have "state_of (disconnect e csid st) = state_of ?out" by simp
    with r'(1) evs1 evs0 out2 show ?thesis by auto
  next
    case (Done s2)
    with run have fin: "disconnect e csid st = disconnect_loop e csid after s2" by simp
    from Done have s2: "state_of ?out = s2" by simp
    obtain evs2 where
        "map_of (game_rooms (state_of (disconnect_loop e csid after s2))) code
           = map_of (game_rooms s2) code"
        "outbox (state_of (disconnect_loop e csid after s2)) = outbox s2 @ evs2"
        "\<forall>ev\<in>set evs2. \<not> is_round_end ev"
      using disconnect_loop_others [OF fresh, of e csid s2] by blast
    with r'(1) evs1 evs0 out2 have
      "map_of (game_rooms (state_of (disconnect e csid st))) code = Some r'
       \<and> outbox (state_of (disconnect e csid st)) =
           outbox st @ evs0 @ Emit (Player_left code rest) (Room code) # (evs1 @ evs2)
       \<and> (\<forall>ev\<in>set (evs1 @ evs2). \<not> is_round_end ev)"
      unfolding fin s2 by auto
    then show ?thesis by blast
  qed
  have ranged: "?out =
               Done (s1\<lparr>game_rooms :=
                          AList.update code (round_room e code ?r1 d) (game_rooms s1),
                        outbox := outbox s1 @ Emit (Player_left code rest) (Room code)
                          # round_events ?r1 d (random_choice e code WORD_BANK),
                        tasks := tasks s1 @ [Round_timer code 60]\<rparr>)"
    if "py_index rest (current_drawer_index r) = Some d" for d
  proof -
    have "py_index (players ?r1) (current_drawer_index ?r1) = Some d"
      using that by simp
    with look2 have "?out =
       Done (st2\<lparr>game_rooms := AList.update code (round_room e code ?r1 d) (game_rooms st2),
                outbox := outbox st2 @ round_events ?r1 d (random_choice e code WORD_BANK),
                tasks := tasks st2 @ [Round_timer code 60]\<rparr>)"
      by (rule start_new_round_Some)
    then show ?thesis
      by (simp add: assms(9) emit_def set_room_def)
  qed
  from final r'(2-4) evs0(2) run ranged show ?thesis by blast
qed


theorem drawer_disconnect_starts_round_witness:
  "game_rooms ex_two_games = [(''ABCD'', ex_room), (''TWO'', ex_two_room)]
   \<and> disconnect (env_at 1020) ''b'' ex_two_games =
     Done (ex_two_games\<lparr>
       game_rooms :=
         [(''ABCD'', ex_room\<lparr>players :=
              [\<lparr>sid = ''a'', username = ''Alice'', score = 0, is_host = True\<rparr>]\<rparr>),
          (''TWO'', ex_two_room\<lparr>players :=
              [\<lparr>sid = ''c'', username = ''Carol'', score = 0, is_host = False\<rparr>],
              current_drawer_sid := Some ''c'', round_start_time := Some 1020\<rparr>)],
       outbox := outbox ex_two_games @
         [Emit (Player_left ''ABCD''
                  [\<lparr>sid = ''a'', username = ''Alice'', score = 0, is_host = True\<rparr>])
            (Room ''ABCD''),
          Emit (Player_left ''TWO''
                  [\<lparr>sid = ''c'', username = ''Carol'', score = 0, is_host = False\<rparr>])
            (Room ''TWO''),
          Emit (New_round 1 ''Carol'' ''c'' ''cat'' 3) (To ''c'')],
       tasks := tasks ex_two_games @ [Round_timer ''TWO'' 60]\<rparr>)"
proof -
  let ?alice = "\<lparr>sid = ''a'', username = ''Alice'', score = 0, is_host = True\<rparr>"
  let ?carol = "\<lparr>sid = ''c'', username = ''Carol'', score = 0, is_host = False\<rparr>"
  let ?s1 = "ex_two_games\<lparr>
       game_rooms := [(''ABCD'', ex_room\<lparr>players := [?alice]\<rparr>), (''TWO'', ex_two_room)],
       outbox := outbox ex_two_games @ [Emit (Player_left ''ABCD'' [?alice]) (Room ''ABCD'')]\<rparr>"
  let ?st2 = "emit (Player_left ''TWO'' [?carol]) (Room ''TWO'')
                (set_room ''TWO'' (ex_two_room\<lparr>players := [?carol]\<rparr>) ?s1)"
  have rooms: "game_rooms ex_two_games = [(''ABCD'', ex_room)] @ (''TWO'', ex_two_room) # []"
    by code_simp
  have h1: "distinct (map fst (game_rooms ex_two_games))" by (simp add: rooms)
  have h3: "disconnect_loop (env_at 1020) ''b'' [(''ABCD'', ex_room)] ex_two_games = Done ?s1"
    by code_simp
  have h4: "game_started ex_two_room" by (simp add: ex_two_room_def)
  have h5: "current_drawer_sid ex_two_room = Some ''b''" by (simp add: ex_two_room_def)
  have h6: "\<exists>p\<in>set (players ex_two_room). sid p = ''b''" by (simp add: ex_two_room_def)
  have h7: "[?carol] = filter (\<lambda>p. sid p \<noteq> ''b'') (players ex_two_room)"
    by (simp add: ex_two_room_def)
  have h8: "[?carol] \<noteq> []" by simp
  have idx: "py_index [?carol] (current_drawer_index ex_two_room) = Some ?carol"
    by (simp add: py_index_def ex_two_room_def)
  have w: "random_choice (env_at 1020) ''TWO'' WORD_BANK = ''cat''"
    by (simp add: random_choice_def env_at_def WORD_BANK_def)
  have ts: "timestamp (env_at 1020) = 1020" by (simp add: env_at_def)
  note inst = drawer_disconnect_starts_round [OF h1 rooms h3 h4 h5 h6 h7 h8 refl]
  from inst idx have round: "start_new_round (env_at 1020) ''TWO'' ?st2 =
       Done (?s1\<lparr>game_rooms :=
                  AList.update ''TWO''
                    (round_room (env_at 1020) ''TWO'' (ex_two_room\<lparr>players := [?carol]\<rparr>) ?carol)
                    (game_rooms ?s1),
                outbox := outbox ?s1 @ Emit (Player_left ''TWO'' [?carol]) (Room ''TWO'')
                  # round_events (ex_two_room\<lparr>players := [?carol]\<rparr>) ?carol
                      (random_choice (env_at 1020) ''TWO'' WORD_BANK),
                tasks := tasks ?s1 @ [Round_timer ''TWO'' 60]\<rparr>)"
    by blast
  from inst have "disconnect (env_at 1020) ''b'' ex_two_games =
           (case start_new_round (env_at 1020) ''TWO'' ?st2 of
              Raised err s \<Rightarrow> Raised err s
            | Done s2 \<Rightarrow> disconnect_loop (env_at 1020) ''b'' [] s2)"
    by blast
  then show ?thesis
    unfolding round
    by (simp add: rooms round_room_def round_events_def w ts ex_two_room_def)
qed

text \<open>
  C3 does not hold of the code: \<open>disconnect\<close> never adjusts
  \<open>current_drawer_index\<close>, which only \<open>end_round\<close> (modulo the roster length) and
  \<open>end_game\<close> (to 0) keep in range.  In the game of Alice and Bob the first round
  times out and Bob, at index 1, draws the second; Bob disconnects.  The roster is now
  Alice alone, the index is still 1, and the \<open>start_new_round\<close> that \<open>disconnect\<close>
  calls reads \<open>players[1]\<close> and raises \<open>IndexError\<close>.
\<close>

theorem drawer_index_past_roster_end:
  "(case disconnect (env_at 1070) ''b'' ex_second_round of
      Done st' \<Rightarrow> False
    | Raised err st' \<Rightarrow>
        err = IndexError
        \<and> map (\<lambda>kv. (map sid (players (snd kv)), current_drawer_index (snd kv)))
            (game_rooms st') = [([''a''], 1)])"
  by code_simp

end
